theory Spec2Isabelle
  imports Main
begin

section \<open>Parse trees\<close>

text \<open>
  The trees of \<^verbatim>\<open>src/codegeneration/ModuleTransformer.js\<close>. A tree built with
  \<^verbatim>\<open>new\<close> carries the location the source passes (\<^verbatim>\<open>null\<close> is \<open>None\<close>); a tree
  built by a factory function or a template has no location of its own.
\<close>

datatype location = SourceRange nat nat

datatype identifierToken =
  IdentifierToken (tokenLocation: "location option") (tokenValue: string)

text \<open>
  A literal token: its text as written and its \<^verbatim>\<open>processedValue\<close>. The getter that
  computes the second from the first is not in the source at hand, so both are data
  here.
\<close>

datatype literalToken =
  LiteralToken (tokenText: string) (processedValue: string)

datatype literal =
  TokenLiteral literalToken
| StringLiteral string
| NullLiteral
| TrueLiteral

datatype tokenType = VAR | LET | CONST

text \<open>\<^verbatim>\<open>tree.specifiers\<close> is either the \<^verbatim>\<open>*\<close> token or an array of specifiers.\<close>

datatype 'a specifiers = STAR | Specifiers "'a list"

datatype tree =
  Script "location option" "tree list"
| Module "location option" "tree list"
| ExportDeclaration "location option" tree
| NamedExport "location option" "tree option" tree
| ExportSpecifierSet "location option" "tree list"
| ExportSpecifier "location option" identifierToken "identifierToken option"
| ExportStar "location option"
| ModuleSpecifier "location option" literalToken
| ModuleDeclaration "location option" identifierToken tree
| ImportDeclaration "location option" tree tree
| ImportSpecifierSet "location option" "tree specifiers"
| ImportSpecifier "location option" identifierToken "identifierToken option"
| EmptyStatement "location option"
| BindingIdentifier "location option" identifierToken
| BindingElement "location option" tree "tree option"
| LiteralPropertyName "location option" identifierToken
| ObjectPattern "location option" "tree list"
| ObjectPatternField "location option" tree tree
| IdentifierExpression identifierToken
| MemberExpression tree identifierToken
| CallExpression tree "tree list"
| LiteralExpression literal
| ThisExpression
| FunctionExpression "tree list"
| ObjectLiteralExpression "tree list"
| PropertyNameAssignment identifierToken tree
| ReturnStatement tree
| ExpressionStatement tree
| VariableStatement tokenType tree tree
| OtherTree string

text \<open>
  \<open>FunctionExpression body\<close> is a function expression with no name and no formal
  parameter; \<open>VariableStatement k lvalue init\<close> is a variable statement with one
  declaration; \<open>OtherTree\<close> stands for every kind of tree this pass has no handler for.
\<close>

section \<open>Symbols, project and transformer state\<close>

record exportSymbol =
  name :: string
  tree :: tree
  relatedTree :: "tree option"

record moduleSymbol =
  module_url :: "string option"
  getExports :: "exportSymbol list"

record project =
  project_url :: "string option"
  getModuleForStarTree :: "tree \<Rightarrow> moduleSymbol option"
  identifierGenerator :: nat

record transformer =
  project :: project
  module :: "moduleSymbol option"
  idMappingStack :: "(string \<rightharpoonup> string) list"

datatype error = AssertionError | TypeError

type_synonym 'a result = "error + 'a \<times> transformer"

section \<open>Tree construction\<close>

text \<open>
  The factory functions of \<^verbatim>\<open>ParseTreeFactory\<close> and the templates of
  \<^verbatim>\<open>PlaceholderParser\<close> are imported by the source; each is modelled by the tree it
  denotes. A string given where a token is expected becomes a token without location.
\<close>

definition createIdentifierToken :: "string \<Rightarrow> identifierToken" where
  "createIdentifierToken s = IdentifierToken None s"

definition createBindingIdentifier :: "identifierToken \<Rightarrow> tree" where
  "createBindingIdentifier tok = BindingIdentifier None tok"

definition createIdentifierExpression :: "identifierToken \<Rightarrow> tree" where
  "createIdentifierExpression tok = IdentifierExpression tok"

definition createMemberExpression :: "string \<Rightarrow> identifierToken \<Rightarrow> tree" where
  "createMemberExpression operand memberName =
     MemberExpression (createIdentifierExpression (createIdentifierToken operand)) memberName"

definition createObjectLiteralExpression :: "tree list \<Rightarrow> tree" where
  "createObjectLiteralExpression properties = ObjectLiteralExpression properties"

definition createUseStrictDirective :: tree where
  "createUseStrictDirective = ExpressionStatement (LiteralExpression (StringLiteral ''use strict''))"

definition createVariableStatement :: "tokenType \<Rightarrow> tree \<Rightarrow> tree \<Rightarrow> tree" where
  "createVariableStatement binding lvalue initializer = VariableStatement binding lvalue initializer"

text \<open>\<^verbatim>\<open>a.b\<close> for two names of a template.\<close>

definition memberPath :: "string \<Rightarrow> string \<Rightarrow> tree" where
  "memberPath a b = createMemberExpression a (createIdentifierToken b)"

text \<open>
  The property definition of \<^verbatim>\<open>getGetterExport\<close>:
  \<^verbatim>\<open>${name}: { get: function() { return ${returnExpression}; }, enumerable: true }\<close>
\<close>

definition getterDescriptor :: "string \<Rightarrow> tree \<Rightarrow> tree" where
  "getterDescriptor nm returnExpression =
     PropertyNameAssignment (createIdentifierToken nm)
       (ObjectLiteralExpression
         [PropertyNameAssignment (createIdentifierToken ''get'')
            (FunctionExpression [ReturnStatement returnExpression]),
          PropertyNameAssignment (createIdentifierToken ''enumerable'')
            (LiteralExpression TrueLiteral)])"

text \<open>
  The statement of \<^verbatim>\<open>createExportStatement\<close>:
  \<^verbatim>\<open>return Object.preventExtensions(Object.create(null, ${descriptors}));\<close>
\<close>

definition exportReturnStatement :: "tree \<Rightarrow> tree" where
  "exportReturnStatement descriptors =
     ReturnStatement
       (CallExpression (memberPath ''Object'' ''preventExtensions'')
         [CallExpression (memberPath ''Object'' ''create'')
            [LiteralExpression NullLiteral, descriptors]])"

text \<open>The expression of \<^verbatim>\<open>transformModuleSpecifier\<close>: \<^verbatim>\<open>System.get(${token})\<close>\<close>

definition systemGet :: "literalToken \<Rightarrow> tree" where
  "systemGet token =
     CallExpression (memberPath ''System'' ''get'') [LiteralExpression (TokenLiteral token)]"

text \<open>
  The statement of \<^verbatim>\<open>transformModule\<close>:
  \<^verbatim>\<open>System.get('@traceur/module').registerModule(${this.url}, function() { ${statements} }, this);\<close>
\<close>

definition registerStatement :: "string \<Rightarrow> tree list \<Rightarrow> tree" where
  "registerStatement u statements =
     ExpressionStatement
       (CallExpression
         (MemberExpression
           (CallExpression (memberPath ''System'' ''get'')
              [LiteralExpression (StringLiteral ''@traceur/module'')])
           (createIdentifierToken ''registerModule''))
         [LiteralExpression (StringLiteral u), FunctionExpression statements, ThisExpression])"

section \<open>Assertions\<close>

text \<open>
  Modelled from the spec: \<^verbatim>\<open>assert\<close> is imported from \<^verbatim>\<open>util/assert\<close>, which is not in
  the source at hand. By the spec a violated precondition is ``an immediate,
  unrecoverable assertion failure'' that aborts the transform of the module.
\<close>

definition assert :: "bool \<Rightarrow> error + unit" where
  "assert b = (if b then Inr () else Inl AssertionError)"

section \<open>Temporary names\<close>

text \<open>
  Modelled from the spec: \<^verbatim>\<open>getTempIdentifier\<close> is inherited from
  \<^verbatim>\<open>TempVarTransformer\<close>, which is not in the source at hand. The spec asks for
  ``a fresh, globally-unique local identifier'' drawn ``from a reserved namespace'':
  the names are \<^verbatim>\<open>$__0\<close>, \<^verbatim>\<open>$__1\<close>, ... from the counter of the project's identifier
  generator, which the transformer shares (line 98) and which only grows.
\<close>

definition digitChar :: "nat \<Rightarrow> char" where
  "digitChar d = ''0123456789'' ! d"

function decimal :: "nat \<Rightarrow> string" where
  "decimal n = (if n < 10 then [digitChar n] else decimal (n div 10) @ [digitChar (n mod 10)])"
  by pat_completeness auto
termination
  by (relation "measure id") auto

definition generateUniqueIdentifier :: "nat \<Rightarrow> string" where
  "generateUniqueIdentifier n = ''$__'' @ decimal n"

definition getTempIdentifier :: "transformer \<Rightarrow> string \<times> transformer" where
  "getTempIdentifier t =
     (generateUniqueIdentifier (identifierGenerator (project t)),
      t\<lparr>project := (project t)\<lparr>identifierGenerator := Suc (identifierGenerator (project t))\<rparr>\<rparr>)"

text \<open>
  \<^verbatim>\<open>getTempVarNameForModuleSpecifier\<close>, lines 110-115. Reading \<^verbatim>\<open>token.processedValue\<close>
  of a tree that has no token, or a key of the missing top of an empty stack, throws.
  \<^verbatim>\<open>id || ...\<close> takes the stored name unless it is missing or the empty string.
\<close>

fun getTempVarNameForModuleSpecifier :: "transformer \<Rightarrow> tree \<Rightarrow> string result" where
  "getTempVarNameForModuleSpecifier t (ModuleSpecifier l token) =
     (let moduleName = processedValue token in
      if idMappingStack t = [] then Inl TypeError
      else
        let idMapping = last (idMappingStack t) in
        (case idMapping moduleName of
           Some ident \<Rightarrow>
             if ident \<noteq> [] then Inr (ident, t)
             else
               let (fresh, t') = getTempIdentifier t in
               Inr (fresh, t'\<lparr>idMappingStack :=
                      butlast (idMappingStack t) @ [idMapping(moduleName \<mapsto> fresh)]\<rparr>)
         | None \<Rightarrow>
             let (fresh, t') = getTempIdentifier t in
             Inr (fresh, t'\<lparr>idMappingStack :=
                    butlast (idMappingStack t) @ [idMapping(moduleName \<mapsto> fresh)]\<rparr>)))"
| "getTempVarNameForModuleSpecifier t _ = Inl TypeError"

text \<open>
  \<^verbatim>\<open>pushTempVarState\<close> and \<^verbatim>\<open>popTempVarState\<close>, lines 117-125. The calls to
  \<^verbatim>\<open>super\<close> manage the inherited pool of names and leave the mapping stack alone.
\<close>

definition pushTempVarState :: "transformer \<Rightarrow> transformer" where
  "pushTempVarState t = t\<lparr>idMappingStack := idMappingStack t @ [Map.empty]\<rparr>"

definition popTempVarState :: "transformer \<Rightarrow> transformer" where
  "popTempVarState t = t\<lparr>idMappingStack := butlast (idMappingStack t)\<rparr>"

section \<open>Export emission\<close>

text \<open>The getter \<^verbatim>\<open>url\<close>, lines 104-108.\<close>

definition url :: "transformer \<Rightarrow> string option" where
  "url t = (case module t of Some m \<Rightarrow> module_url m | None \<Rightarrow> project_url (project t))"

text \<open>A string is truthy when it is present and not empty.\<close>

fun truthy :: "string option \<Rightarrow> bool" where
  "truthy None = False"
| "truthy (Some s) = (s \<noteq> [])"

text \<open>
  \<^verbatim>\<open>getGetterExport\<close>, lines 56-91. In the star case the related tree is read again
  after the assertion (line 75).
\<close>

definition getGetterExport :: "transformer \<Rightarrow> exportSymbol \<Rightarrow> tree result" where
  "getGetterExport t symbol =
     (case tree symbol of
        ExportSpecifier l lhs rhs \<Rightarrow>
          (case relatedTree symbol of
             Some moduleSpecifier \<Rightarrow>
               (case getTempVarNameForModuleSpecifier t moduleSpecifier of
                  Inl e \<Rightarrow> Inl e
                | Inr (idName, t') \<Rightarrow>
                    Inr (getterDescriptor (name symbol) (createMemberExpression idName lhs), t'))
           | None \<Rightarrow>
               Inr (getterDescriptor (name symbol) (createIdentifierExpression lhs), t))
      | ExportStar l \<Rightarrow>
          (case assert (relatedTree symbol \<noteq> None) of
             Inl e \<Rightarrow> Inl e
           | Inr ok \<Rightarrow>
               (case relatedTree symbol of
                  None \<Rightarrow> Inl TypeError
                | Some moduleSpecifier \<Rightarrow>
                    (case getTempVarNameForModuleSpecifier t moduleSpecifier of
                       Inl e \<Rightarrow> Inl e
                     | Inr (idName, t') \<Rightarrow>
                         Inr (getterDescriptor (name symbol)
                                (createMemberExpression idName
                                   (createIdentifierToken (name symbol))), t'))))
      | _ \<Rightarrow>
          Inr (getterDescriptor (name symbol)
                 (createIdentifierExpression (createIdentifierToken (name symbol))), t))"

text \<open>The \<^verbatim>\<open>map\<close> of line 149: the symbols in order, the state threaded through.\<close>

fun getGetterExports :: "transformer \<Rightarrow> exportSymbol list \<Rightarrow> (tree list) result" where
  "getGetterExports t [] = Inr ([], t)"
| "getGetterExports t (exp # exps) =
     (case getGetterExport t exp of
        Inl e \<Rightarrow> Inl e
      | Inr (p, t1) \<Rightarrow>
          (case getGetterExports t1 exps of
             Inl e \<Rightarrow> Inl e
           | Inr (ps, t2) \<Rightarrow> Inr (p # ps, t2)))"

text \<open>
  \<^verbatim>\<open>createExportStatement\<close>, lines 148-156. \<^verbatim>\<open>this.module.getExports()\<close> throws when
  the transformer was made without a module.
\<close>

definition createExportStatement :: "transformer \<Rightarrow> tree result" where
  "createExportStatement t =
     (case module t of
        None \<Rightarrow> Inl TypeError
      | Some m \<Rightarrow>
          (case getGetterExports t (getExports m) of
             Inl e \<Rightarrow> Inl e
           | Inr (properties, t') \<Rightarrow>
               Inr (exportReturnStatement (createObjectLiteralExpression properties), t')))"

section \<open>Import and alias lowering\<close>

text \<open>\<^verbatim>\<open>transformModuleSpecifier\<close>, lines 176-179.\<close>

definition transformModuleSpecifier :: "literalToken \<Rightarrow> tree" where
  "transformModuleSpecifier token = systemGet token"

text \<open>\<^verbatim>\<open>transformImportSpecifier\<close>, lines 216-225.\<close>

definition transformImportSpecifier ::
  "location option \<Rightarrow> identifierToken \<Rightarrow> identifierToken option \<Rightarrow> tree" where
  "transformImportSpecifier l lhs rhs =
     (case rhs of
        Some r \<Rightarrow>
          (let binding = BindingIdentifier l r;
               bindingElement = BindingElement l binding None;
               nm = LiteralPropertyName (tokenLocation lhs) lhs
           in ObjectPatternField l nm bindingElement)
      | None \<Rightarrow> BindingElement l (createBindingIdentifier lhs) None)"

text \<open>
  Modelled from the spec: \<^verbatim>\<open>transformAny\<close> and \<^verbatim>\<open>transformList\<close> are inherited from
  the generic tree walker, which is not in the source at hand. By the spec the walker
  dispatches on the kind of the node to the handler of that kind and copies a node of
  any other kind unchanged; a list is rewritten element by element, in order.
  A \<open>Script\<close> is rewritten item by item. The handlers themselves are those of the
  source: \<^verbatim>\<open>transformModule\<close> (lines 127-146), \<^verbatim>\<open>transformExportDeclaration\<close>
  (158-160), \<^verbatim>\<open>transformNamedExport\<close> (162-170), \<^verbatim>\<open>transformModuleDeclaration\<close>
  (185-190), \<^verbatim>\<open>transformImportDeclaration\<close> (192-200) and
  \<^verbatim>\<open>transformImportSpecifierSet\<close> (202-214). A handler takes the fields of its tree
  that the source reads. \<^verbatim>\<open>transformModule\<close> reads \<^verbatim>\<open>this.url\<close> a second time for the
  template (line 141), after the scope is popped.
\<close>

function (sequential) transformAny :: "transformer \<Rightarrow> tree \<Rightarrow> tree result"
  and transformList :: "transformer \<Rightarrow> tree list \<Rightarrow> (tree list) result"
  and transformModule :: "transformer \<Rightarrow> location option \<Rightarrow> tree list \<Rightarrow> tree result"
  and transformExportDeclaration :: "transformer \<Rightarrow> tree \<Rightarrow> tree result"
  and transformNamedExport :: "transformer \<Rightarrow> tree option \<Rightarrow> tree result"
  and transformModuleDeclaration :: "transformer \<Rightarrow> identifierToken \<Rightarrow> tree \<Rightarrow> tree result"
  and transformImportDeclaration :: "transformer \<Rightarrow> tree \<Rightarrow> tree \<Rightarrow> tree result"
  and transformImportSpecifierSet ::
    "transformer \<Rightarrow> location option \<Rightarrow> tree specifiers \<Rightarrow> tree result"
where
  "transformAny t (Module l scriptItemList) = transformModule t l scriptItemList"
| "transformAny t (Script l scriptItemList) =
     (case transformList t scriptItemList of
        Inl e \<Rightarrow> Inl e
      | Inr (items, t') \<Rightarrow> Inr (Script l items, t'))"
| "transformAny t (ExportDeclaration l declaration) = transformExportDeclaration t declaration"
| "transformAny t (NamedExport l moduleSpecifier specifierSet) =
     transformNamedExport t moduleSpecifier"
| "transformAny t (ModuleSpecifier l token) = Inr (transformModuleSpecifier token, t)"
| "transformAny t (ModuleDeclaration l ident expression) =
     transformModuleDeclaration t ident expression"
| "transformAny t (ImportDeclaration l importSpecifierSet moduleSpecifier) =
     transformImportDeclaration t importSpecifierSet moduleSpecifier"
| "transformAny t (ImportSpecifierSet l specs) = transformImportSpecifierSet t l specs"
| "transformAny t (ImportSpecifier l lhs rhs) = Inr (transformImportSpecifier l lhs rhs, t)"
| "transformAny t other = Inr (other, t)"

| "transformList t [] = Inr ([], t)"
| "transformList t (x # xs) =
     (case transformAny t x of
        Inl e \<Rightarrow> Inl e
      | Inr (y, t1) \<Rightarrow>
          (case transformList t1 xs of
             Inl e \<Rightarrow> Inl e
           | Inr (ys, t2) \<Rightarrow> Inr (y # ys, t2)))"

| "transformModule t l scriptItemList =
     (case assert (truthy (url t)) of
        Inl e \<Rightarrow> Inl e
      | Inr ok \<Rightarrow>
          (case transformList (pushTempVarState t) scriptItemList of
             Inl e \<Rightarrow> Inl e
           | Inr (items, t1) \<Rightarrow>
               (case createExportStatement t1 of
                  Inl e \<Rightarrow> Inl e
                | Inr (exportStatement, t2) \<Rightarrow>
                    (let statements = [createUseStrictDirective] @ items @ [exportStatement];
                         t3 = popTempVarState t2
                     in case url t3 of
                          None \<Rightarrow> Inl TypeError
                        | Some u \<Rightarrow> Inr (Script l [registerStatement u statements], t3)))))"

| "transformExportDeclaration t declaration = transformAny t declaration"

| "transformNamedExport t (Some moduleSpecifier) =
     (case transformAny t moduleSpecifier of
        Inl e \<Rightarrow> Inl e
      | Inr (expression, t1) \<Rightarrow>
          (case getTempVarNameForModuleSpecifier t1 moduleSpecifier of
             Inl e \<Rightarrow> Inl e
           | Inr (idName, t2) \<Rightarrow>
               Inr (createVariableStatement VAR
                      (createBindingIdentifier (createIdentifierToken idName)) expression, t2)))"
| "transformNamedExport t None = Inr (EmptyStatement None, t)"

| "transformModuleDeclaration t ident expression =
     (case transformAny t expression of
        Inl e \<Rightarrow> Inl e
      | Inr (initializer, t1) \<Rightarrow>
          Inr (createVariableStatement VAR (createBindingIdentifier ident) initializer, t1))"

| "transformImportDeclaration t importSpecifierSet moduleSpecifier =
     (case transformAny t importSpecifierSet of
        Inl e \<Rightarrow> Inl e
      | Inr (binding, t1) \<Rightarrow>
          (case transformAny t1 moduleSpecifier of
             Inl e \<Rightarrow> Inl e
           | Inr (initializer, t2) \<Rightarrow>
               Inr (createVariableStatement VAR binding initializer, t2)))"

| "transformImportSpecifierSet t l STAR =
     (case getModuleForStarTree (project t) (ImportSpecifierSet l STAR) of
        None \<Rightarrow> Inl TypeError
      | Some m \<Rightarrow>
          Inr (ObjectPattern None
                 (map (\<lambda>exportSymbol.
                         BindingElement l
                           (createBindingIdentifier (createIdentifierToken (name exportSymbol))) None)
                    (getExports m)), t))"
| "transformImportSpecifierSet t l (Specifiers specifiers) =
     (case transformList t specifiers of
        Inl e \<Rightarrow> Inl e
      | Inr (fs, t1) \<Rightarrow> Inr (ObjectPattern None fs, t1))"
  by pat_completeness auto
termination
  by (relation "measure
        (case_sum
          (case_sum
            (case_sum (\<lambda>(t, x). 3 * size x) (\<lambda>(t, xs). 3 * size_list size xs + 1))
            (case_sum (\<lambda>(t, l, xs). 3 * size_list size xs + 2) (\<lambda>(t, x). 3 * size x + 1)))
          (case_sum
            (case_sum (\<lambda>(t, x). 3 * size_option size x + 1) (\<lambda>(t, i, x). 3 * size x + 1))
            (case_sum (\<lambda>(t, x, y). 3 * (size x + size y) + 1)
                      (\<lambda>(t, l, s). 3 * size_specifiers size s + 1))))")
     auto

section \<open>Entry points\<close>

text \<open>The kinds of tree the source tests for (lines 26-30); \<open>OTHER\<close> is any other kind.\<close>

datatype parseTreeType = EXPORT_SPECIFIER | EXPORT_STAR | MODULE | SCRIPT | OTHER

fun treeType :: "tree \<Rightarrow> parseTreeType" where
  "treeType (ExportSpecifier l lhs rhs) = EXPORT_SPECIFIER"
| "treeType (ExportStar l) = EXPORT_STAR"
| "treeType (Module l scriptItemList) = MODULE"
| "treeType (Script l scriptItemList) = SCRIPT"
| "treeType other = OTHER"

text \<open>The constructor, lines 97-102.\<close>

definition newModuleTransformer :: "project \<Rightarrow> moduleSymbol option \<Rightarrow> transformer" where
  "newModuleTransformer p m = \<lparr>project = p, module = m, idMappingStack = [Map.empty]\<rparr>"

text \<open>The static \<^verbatim>\<open>transform\<close>, lines 232-235; the caller receives the tree only.\<close>

definition transform :: "project \<Rightarrow> tree \<Rightarrow> error + tree" where
  "transform p tr =
     (case assert (treeType tr = SCRIPT) of
        Inl e \<Rightarrow> Inl e
      | Inr ok \<Rightarrow>
          (case transformAny (newModuleTransformer p None) tr of
             Inl e \<Rightarrow> Inl e
           | Inr (r, t') \<Rightarrow> Inr r))"

text \<open>The static \<^verbatim>\<open>transformAsModule\<close>, lines 243-247.\<close>

definition transformAsModule :: "project \<Rightarrow> moduleSymbol option \<Rightarrow> tree \<Rightarrow> error + tree" where
  "transformAsModule p m tr =
     (case assert (treeType tr = MODULE) of
        Inl e \<Rightarrow> Inl e
      | Inr ok \<Rightarrow>
          (case assert (m \<noteq> None) of
             Inl e \<Rightarrow> Inl e
           | Inr ok' \<Rightarrow>
               (case transformAny (newModuleTransformer p m) tr of
                  Inl e \<Rightarrow> Inl e
                | Inr (r, t') \<Rightarrow> Inr r)))"

section \<open>Notions used by the properties\<close>

text \<open>The specifier value a module specifier is cached under; no value for another tree.\<close>

fun moduleNameOf :: "tree \<Rightarrow> string option" where
  "moduleNameOf (ModuleSpecifier l token) = Some (processedValue token)"
| "moduleNameOf other = None"

text \<open>
  The data model of the spec: the related specifier of an export symbol is a module
  specifier when present, and a star export has one.
\<close>

definition symbolResolved :: "exportSymbol \<Rightarrow> bool" where
  "symbolResolved s =
     (case relatedTree s of
        None \<Rightarrow> treeType (tree s) \<noteq> EXPORT_STAR
      | Some r \<Rightarrow> moduleNameOf r \<noteq> None)"

text \<open>Successive calls of \<^verbatim>\<open>getTempVarNameForModuleSpecifier\<close> in one scope.\<close>

fun getTempVarNames :: "transformer \<Rightarrow> tree list \<Rightarrow> (string list) result" where
  "getTempVarNames t [] = Inr ([], t)"
| "getTempVarNames t (ms # mss) =
     (case getTempVarNameForModuleSpecifier t ms of
        Inl e \<Rightarrow> Inl e
      | Inr (n, t1) \<Rightarrow>
          (case getTempVarNames t1 mss of
             Inl e \<Rightarrow> Inl e
           | Inr (ns, t2) \<Rightarrow> Inr (n # ns, t2)))"

text \<open>The lowered form of a re-export: \<^verbatim>\<open>var <idName> = System.get(<token>)\<close>\<close>

definition lookupStatement :: "string \<Rightarrow> literalToken \<Rightarrow> tree" where
  "lookupStatement idName token =
     VariableStatement VAR (BindingIdentifier None (IdentifierToken None idName)) (systemGet token)"

text \<open>The field of a wildcard import for one export: the name bound to itself.\<close>

definition starField :: "location option \<Rightarrow> exportSymbol \<Rightarrow> tree" where
  "starField l s = BindingElement l (BindingIdentifier None (IdentifierToken None (name s))) None"

text \<open>The token a re-export statement names its source module with.\<close>

fun reExportToken :: "tree \<Rightarrow> literalToken option" where
  "reExportToken (NamedExport l (Some (ModuleSpecifier l' token)) specifierSet) = Some token"
| "reExportToken other = None"

text \<open>
  What no step of the pass assigns: the module, the URL of the project and the depth of
  the mapping stack between a push and its pop.
\<close>

definition frame :: "transformer \<Rightarrow> moduleSymbol option \<times> string option \<times> nat" where
  "frame t = (module t, project_url (project t), length (idMappingStack t))"

definition framed :: "transformer \<Rightarrow> 'a result \<Rightarrow> bool" where
  "framed t r = (case r of Inl e \<Rightarrow> True | Inr (x, t') \<Rightarrow> frame t' = frame t)"

text \<open>
  The invariant of the innermost scope: every cached name was generated before the
  current counter, and no name is cached under two specifier values.
\<close>

definition scopeInv :: "transformer \<Rightarrow> bool" where
  "scopeInv t =
     (idMappingStack t \<noteq> [] \<and>
      (\<forall>k v. last (idMappingStack t) k = Some v \<longrightarrow>
         (\<exists>i < identifierGenerator (project t). v = generateUniqueIdentifier i)) \<and>
      (\<forall>k k' v. last (idMappingStack t) k = Some v \<longrightarrow>
         last (idMappingStack t) k' = Some v \<longrightarrow> k = k'))"

section \<open>The generated output, as the spec gives it\<close>

text \<open>
  The wire-level contract of the spec (section 6), written with the constructors of the
  trees and nothing else: \<^verbatim>\<open>a.b\<close> for two names; the entry
  \<^verbatim>\<open><name>: { get: function() { return <expr>; }, enumerable: true }\<close>; the statement
  \<^verbatim>\<open>return Object.preventExtensions(Object.create(null, { <entries> }));\<close>; the directive
  \<^verbatim>\<open>"use strict";\<close>; the statement
  \<^verbatim>\<open>System.get('@traceur/module').registerModule(<url>, function() { <body> }, this);\<close>;
  the lookup \<^verbatim>\<open>System.get(<token>)\<close> and the binding \<^verbatim>\<open>var <name> = System.get(<token>);\<close>
\<close>

definition wireMember :: "string \<Rightarrow> string \<Rightarrow> tree" where
  "wireMember a b = MemberExpression (IdentifierExpression (IdentifierToken None a)) (IdentifierToken None b)"

definition wireDescriptor :: "string \<Rightarrow> tree \<Rightarrow> tree" where
  "wireDescriptor nm expr =
     PropertyNameAssignment (IdentifierToken None nm)
       (ObjectLiteralExpression
         [PropertyNameAssignment (IdentifierToken None ''get'')
            (FunctionExpression [ReturnStatement expr]),
          PropertyNameAssignment (IdentifierToken None ''enumerable'')
            (LiteralExpression TrueLiteral)])"

definition wireExportReturn :: "tree list \<Rightarrow> tree" where
  "wireExportReturn entries =
     ReturnStatement
       (CallExpression
         (MemberExpression (IdentifierExpression (IdentifierToken None ''Object''))
            (IdentifierToken None ''preventExtensions''))
         [CallExpression
            (MemberExpression (IdentifierExpression (IdentifierToken None ''Object''))
               (IdentifierToken None ''create''))
            [LiteralExpression NullLiteral, ObjectLiteralExpression entries]])"

definition wireUseStrict :: tree where
  "wireUseStrict = ExpressionStatement (LiteralExpression (StringLiteral ''use strict''))"

definition wireRegister :: "string \<Rightarrow> tree list \<Rightarrow> tree" where
  "wireRegister u body =
     ExpressionStatement
       (CallExpression
         (MemberExpression
           (CallExpression
              (MemberExpression (IdentifierExpression (IdentifierToken None ''System''))
                 (IdentifierToken None ''get''))
              [LiteralExpression (StringLiteral ''@traceur/module'')])
           (IdentifierToken None ''registerModule''))
         [LiteralExpression (StringLiteral u), FunctionExpression body, ThisExpression])"

definition wireLookup :: "literalToken \<Rightarrow> tree" where
  "wireLookup token =
     CallExpression
       (MemberExpression (IdentifierExpression (IdentifierToken None ''System''))
          (IdentifierToken None ''get''))
       [LiteralExpression (TokenLiteral token)]"

definition wireLookupStatement :: "string \<Rightarrow> literalToken \<Rightarrow> tree" where
  "wireLookupStatement idName token =
     VariableStatement VAR (BindingIdentifier None (IdentifierToken None idName)) (wireLookup token)"

text \<open>
  What the getter of an export symbol reads (the table of spec section 4.2), up to the
  temporary name, which the allocator chooses.
\<close>

definition getterReads :: "exportSymbol \<Rightarrow> tree \<Rightarrow> bool" where
  "getterReads s expr =
     (case tree s of
        ExportSpecifier l lhs rhs \<Rightarrow>
          (case relatedTree s of
             None \<Rightarrow> expr = IdentifierExpression lhs
           | Some r \<Rightarrow>
               (\<exists>idName. expr = MemberExpression (IdentifierExpression (IdentifierToken None idName)) lhs))
      | ExportStar l \<Rightarrow>
          (\<exists>idName. expr = MemberExpression (IdentifierExpression (IdentifierToken None idName))
                             (IdentifierToken None (name s)))
      | _ \<Rightarrow> expr = IdentifierExpression (IdentifierToken None (name s)))"

section \<open>The rewritten statements, as the spec gives them\<close>

text \<open>The kinds of tree the pass or the walker has a handler for.\<close>

fun handledKind :: "tree \<Rightarrow> bool" where
  "handledKind (Script l scriptItemList) = True"
| "handledKind (Module l scriptItemList) = True"
| "handledKind (ExportDeclaration l declaration) = True"
| "handledKind (NamedExport l moduleSpecifier specifierSet) = True"
| "handledKind (ModuleSpecifier l token) = True"
| "handledKind (ModuleDeclaration l ident expression) = True"
| "handledKind (ImportDeclaration l importSpecifierSet moduleSpecifier) = True"
| "handledKind (ImportSpecifierSet l specs) = True"
| "handledKind (ImportSpecifier l lhs rhs) = True"
| "handledKind other = False"

text \<open>
  Spec section 4.3 and 4.4, for the statements of a module in the shapes the grammar
  gives them; \<open>None\<close> for another shape, for a wildcard whose target is not resolved
  and when the allocator fails.
  \<^item> A module specifier lowers to the lookup; an expression of another kind is copied.
  \<^item> A named import specifier with a left-hand name only is the binding of that name;
    with a right-hand name it is the field that binds the right-hand name to the
    property of the left-hand name.
  \<^item> A wildcard is one binding per export of the target, in order.
  \<^item> An import declaration is \<^verbatim>\<open>var <pattern> = System.get(<token>)\<close>.
  \<^item> A module alias is \<^verbatim>\<open>var <identifier> = <lowered expression>\<close>.
  \<^item> An export declaration is what the declaration it wraps lowers to.
  \<^item> A named export with a module specifier is \<^verbatim>\<open>var <temp> = System.get(<token>)\<close> with
    the temporary name of the specifier; without one it is the empty statement of
    line 169.
  \<^item> A statement of any other kind is copied unchanged.
\<close>

fun loweredInitializer :: "tree \<Rightarrow> tree option" where
  "loweredInitializer (ModuleSpecifier l token) = Some (wireLookup token)"
| "loweredInitializer e = (if handledKind e then None else Some e)"

fun loweredField :: "tree \<Rightarrow> tree option" where
  "loweredField (ImportSpecifier l lhs None) =
     Some (BindingElement l (BindingIdentifier None lhs) None)"
| "loweredField (ImportSpecifier l lhs (Some rhs)) =
     Some (ObjectPatternField l (LiteralPropertyName (tokenLocation lhs) lhs)
             (BindingElement l (BindingIdentifier l rhs) None))"
| "loweredField other = None"

fun loweredPattern :: "project \<Rightarrow> location option \<Rightarrow> tree specifiers \<Rightarrow> tree option" where
  "loweredPattern p l STAR =
     (case getModuleForStarTree p (ImportSpecifierSet l STAR) of
        None \<Rightarrow> None
      | Some m \<Rightarrow>
          Some (ObjectPattern None
                  (map (\<lambda>s. BindingElement l (BindingIdentifier None (IdentifierToken None (name s))) None)
                     (getExports m))))"
| "loweredPattern p l (Specifiers specifiers) =
     (case those (map loweredField specifiers) of
        None \<Rightarrow> None
      | Some fs \<Rightarrow> Some (ObjectPattern None fs))"

text \<open>The token of a module specifier, and the parts of an import specifier set.\<close>

fun specifierToken :: "tree \<Rightarrow> literalToken option" where
  "specifierToken (ModuleSpecifier l token) = Some token"
| "specifierToken other = None"

fun specifierSet :: "tree \<Rightarrow> (location option \<times> tree specifiers) option" where
  "specifierSet (ImportSpecifierSet l specs) = Some (l, specs)"
| "specifierSet other = None"

fun loweredItem :: "transformer \<Rightarrow> tree \<Rightarrow> (tree \<times> transformer) option" where
  "loweredItem t (ImportDeclaration l importSpecifierSet moduleSpecifier) =
     (case (specifierSet importSpecifierSet, specifierToken moduleSpecifier) of
        (Some (l', specs), Some token) \<Rightarrow>
          (case loweredPattern (project t) l' specs of
             None \<Rightarrow> None
           | Some pattern \<Rightarrow> Some (VariableStatement VAR pattern (wireLookup token), t))
      | _ \<Rightarrow> None)"
| "loweredItem t (ModuleDeclaration l ident expression) =
     (case loweredInitializer expression of
        None \<Rightarrow> None
      | Some initializer \<Rightarrow>
          Some (VariableStatement VAR (BindingIdentifier None ident) initializer, t))"
| "loweredItem t (ExportDeclaration l declaration) = loweredItem t declaration"
| "loweredItem t (NamedExport l None specifiers) = Some (EmptyStatement None, t)"
| "loweredItem t (NamedExport l (Some moduleSpecifier) specifiers) =
     (case specifierToken moduleSpecifier of
        None \<Rightarrow> None
      | Some token \<Rightarrow>
          (case getTempVarNameForModuleSpecifier t moduleSpecifier of
             Inl e \<Rightarrow> None
           | Inr (idName, t') \<Rightarrow> Some (wireLookupStatement idName token, t')))"
| "loweredItem t other = (if handledKind other then None else Some (other, t))"

fun loweredItems :: "transformer \<Rightarrow> tree list \<Rightarrow> (tree list \<times> transformer) option" where
  "loweredItems t [] = Some ([], t)"
| "loweredItems t (x # xs) =
     (case loweredItem t x of
        None \<Rightarrow> None
      | Some (y, t1) \<Rightarrow>
          (case loweredItems t1 xs of
             None \<Rightarrow> None
           | Some (ys, t2) \<Rightarrow> Some (y # ys, t2)))"

section \<open>Example inputs\<close>

text \<open>A string literal token in single quotes, and the specifier made of it.\<close>

definition exampleToken :: "string \<Rightarrow> literalToken" where
  "exampleToken s = LiteralToken (CHR 0x27 # s @ [CHR 0x27]) s"

definition exampleSpecifier :: "string \<Rightarrow> tree" where
  "exampleSpecifier s = ModuleSpecifier None (exampleToken s)"

text \<open>A module with the own bindings \<^verbatim>\<open>x\<close> and \<^verbatim>\<open>y\<close>, the target of a wildcard import.\<close>

definition exampleTarget :: moduleSymbol where
  "exampleTarget =
     \<lparr>module_url = Some ''b.js'',
      getExports =
        [\<lparr>name = ''x'', tree = OtherTree ''var x'', relatedTree = None\<rparr>,
         \<lparr>name = ''y'', tree = OtherTree ''var y'', relatedTree = None\<rparr>]\<rparr>"

text \<open>
  A module that exports its own \<^verbatim>\<open>a\<close>, re-exports \<^verbatim>\<open>b\<close> as \<^verbatim>\<open>c\<close> from \<^verbatim>\<open>'m'\<close>, and
  \<^verbatim>\<open>d\<close> through \<^verbatim>\<open>export * from 'n'\<close>.
\<close>

definition exampleModule :: moduleSymbol where
  "exampleModule =
     \<lparr>module_url = Some ''a.js'',
      getExports =
        [\<lparr>name = ''a'', tree = OtherTree ''var a'', relatedTree = None\<rparr>,
         \<lparr>name = ''c'',
          tree = ExportSpecifier None (IdentifierToken None ''b'') (Some (IdentifierToken None ''c'')),
          relatedTree = Some (exampleSpecifier ''m'')\<rparr>,
         \<lparr>name = ''d'', tree = ExportStar None, relatedTree = Some (exampleSpecifier ''n'')\<rparr>]\<rparr>"

definition exampleProject :: project where
  "exampleProject =
     \<lparr>project_url = None,
      getModuleForStarTree =
        (\<lambda>tr. if tr = ImportSpecifierSet None STAR then Some exampleTarget else None),
      identifierGenerator = 0\<rparr>"

text \<open>A project whose wildcard imports resolve to a module without exports.\<close>

definition exampleEmptyProject :: project where
  "exampleEmptyProject =
     \<lparr>project_url = None,
      getModuleForStarTree = (\<lambda>tr. Some \<lparr>module_url = Some ''e.js'', getExports = []\<rparr>),
      identifierGenerator = 0\<rparr>"

definition exampleTransformer :: transformer where
  "exampleTransformer = newModuleTransformer exampleProject (Some exampleModule)"

text \<open>\<^verbatim>\<open>export {a} from 'm'\<close>, for a name and a specifier value.\<close>

definition exampleReExport :: "string \<Rightarrow> string \<Rightarrow> tree" where
  "exampleReExport a m =
     NamedExport None (Some (exampleSpecifier m))
       (ExportSpecifierSet None [ExportSpecifier None (IdentifierToken None a) None])"

section \<open>Temporary names: properties\<close>

declare assert_def [simp]

lemma decimal_nonempty: "decimal n \<noteq> []"
  by (subst decimal.simps) simp

lemma digit_inj: "n < 10 \<Longrightarrow> m < 10 \<Longrightarrow> digitChar n = digitChar m \<Longrightarrow> n = m"
proof -
  assume n: "n < 10" and m: "m < 10" and eq: "digitChar n = digitChar m"
  have d: "distinct ''0123456789''"
    by simp
  have "n < length ''0123456789''" "m < length ''0123456789''"
    using n m by simp_all
  from nth_eq_iff_index_eq [OF d this] eq show ?thesis
    by (simp only: digitChar_def)
qed

lemma decimal_inj: "decimal n = decimal m \<Longrightarrow> n = m"
proof (induction n arbitrary: m rule: decimal.induct)
  case (1 n)
  show ?case
  proof (cases "n < 10")
    case small: True
    show ?thesis
    proof (cases "m < 10")
      case True
      with small "1.prems" show ?thesis
        by (auto simp: decimal.simps [of n] decimal.simps [of m] dest: digit_inj)
    next
      case False
      with small "1.prems" decimal_nonempty [of "m div 10"] show ?thesis
        by (simp add: decimal.simps [of n] decimal.simps [of m])
    qed
  next
    case big: False
    show ?thesis
    proof (cases "m < 10")
      case True
      with big "1.prems" decimal_nonempty [of "n div 10"] show ?thesis
        by (simp add: decimal.simps [of n] decimal.simps [of m])
    next
      case False
      with big "1.prems" have eq: "decimal (n div 10) = decimal (m div 10)"
        and d: "digitChar (n mod 10) = digitChar (m mod 10)"
        by (simp_all add: decimal.simps [of n] decimal.simps [of m])
      from "1.IH" [OF big eq] have "n div 10 = m div 10" .
      moreover from d have "n mod 10 = m mod 10"
        by (intro digit_inj) simp_all
      ultimately show ?thesis
        by (metis div_mult_mod_eq)
    qed
  qed
qed

lemma generateUniqueIdentifier_inj:
  "generateUniqueIdentifier i = generateUniqueIdentifier j \<Longrightarrow> i = j"
  by (simp add: generateUniqueIdentifier_def decimal_inj)

lemma generateUniqueIdentifier_nonempty: "generateUniqueIdentifier i \<noteq> []"
  by (simp add: generateUniqueIdentifier_def)

lemma gtv_elim:
  assumes "getTempVarNameForModuleSpecifier t ms = Inr (n, t')"
  obtains (hit) l token where "ms = ModuleSpecifier l token" "idMappingStack t \<noteq> []"
      "last (idMappingStack t) (processedValue token) = Some n" "n \<noteq> []" "t' = t"
  | (miss) l token where "ms = ModuleSpecifier l token" "idMappingStack t \<noteq> []"
      "n = generateUniqueIdentifier (identifierGenerator (project t))"
      "last (idMappingStack t) (processedValue token) = None \<or>
       last (idMappingStack t) (processedValue token) = Some []"
      "t' = t\<lparr>project := (project t)\<lparr>identifierGenerator := Suc (identifierGenerator (project t))\<rparr>,
              idMappingStack := butlast (idMappingStack t) @
                [(last (idMappingStack t))(processedValue token \<mapsto> n)]\<rparr>"
  using assms
  by (cases ms) (auto simp: Let_def getTempIdentifier_def split: if_splits option.splits)

lemma gtv_total:
  "moduleNameOf ms \<noteq> None \<Longrightarrow> idMappingStack t \<noteq> [] \<Longrightarrow>
   \<exists>n t'. getTempVarNameForModuleSpecifier t ms = Inr (n, t')"
  by (cases ms) (auto simp: Let_def getTempIdentifier_def split: option.splits)

lemma gtv_frame:
  assumes "getTempVarNameForModuleSpecifier t ms = Inr (n, t')"
  shows "frame t' = frame t"
  using assms by (cases rule: gtv_elim) (simp_all add: frame_def)

lemma gtv_entry:
  assumes "getTempVarNameForModuleSpecifier t ms = Inr (n, t')" "moduleNameOf ms = Some k"
  shows "last (idMappingStack t') k = Some n \<and> n \<noteq> []"
  using assms by (cases rule: gtv_elim) (auto simp: generateUniqueIdentifier_nonempty)

lemma gtv_keeps:
  assumes "getTempVarNameForModuleSpecifier t ms = Inr (n, t')"
    "last (idMappingStack t) k = Some v" "v \<noteq> []"
  shows "last (idMappingStack t') k = Some v"
  using assms by (cases rule: gtv_elim) auto

lemma gtv_scopeInv:
  assumes "getTempVarNameForModuleSpecifier t ms = Inr (n, t')" "scopeInv t"
  shows "scopeInv t'"
  using assms
proof (cases rule: gtv_elim)
  case (hit l token)
  with assms show ?thesis by simp
next
  case (miss l token)
  let ?m = "last (idMappingStack t)"
  let ?c = "identifierGenerator (project t)"
  from assms(2) have old: "\<And>k v. ?m k = Some v \<Longrightarrow> \<exists>i < ?c. v = generateUniqueIdentifier i"
    and inj: "\<And>k k' v. ?m k = Some v \<Longrightarrow> ?m k' = Some v \<Longrightarrow> k = k'"
    by (auto simp: scopeInv_def)
  have fresh: "?m k \<noteq> Some n" for k
  proof
    assume "?m k = Some n"
    from old [OF this] miss(3) show False
      by (auto dest: generateUniqueIdentifier_inj)
  qed
  have top: "last (idMappingStack t') = ?m(processedValue token \<mapsto> n)"
    and cnt: "identifierGenerator (project t') = Suc ?c"
    and ne: "idMappingStack t' \<noteq> []"
    using miss(5) by simp_all
  show ?thesis
    unfolding scopeInv_def top cnt
  proof (intro conjI allI impI)
    show "idMappingStack t' \<noteq> []" by (rule ne)
  next
    fix k v assume "(?m(processedValue token \<mapsto> n)) k = Some v"
    then show "\<exists>i<Suc ?c. v = generateUniqueIdentifier i"
      using miss(3) old [of k v] by (auto simp: less_Suc_eq split: if_splits)
  next
    fix k k' v
    assume "(?m(processedValue token \<mapsto> n)) k = Some v"
      "(?m(processedValue token \<mapsto> n)) k' = Some v"
    then show "k = k'"
      using fresh inj by (auto split: if_splits)
  qed
qed

lemma scopeInv_push: "scopeInv (pushTempVarState t)"
  by (simp add: scopeInv_def pushTempVarState_def)

lemma scopeInv_fresh:
  "idMappingStack t \<noteq> [] \<and> last (idMappingStack t) = Map.empty \<Longrightarrow> scopeInv t"
  by (simp add: scopeInv_def)

lemma names_frame:
  "getTempVarNames t ms = Inr (ns, t') \<Longrightarrow> frame t' = frame t \<and> length ns = length ms"
  by (induction ms arbitrary: t ns)
     (auto split: sum.splits prod.splits dest: gtv_frame)

lemma names_scopeInv:
  "getTempVarNames t ms = Inr (ns, t') \<Longrightarrow> scopeInv t \<Longrightarrow> scopeInv t'"
  by (induction ms arbitrary: t ns)
     (auto split: sum.splits prod.splits dest: gtv_scopeInv)

lemma names_keeps:
  "getTempVarNames t ms = Inr (ns, t') \<Longrightarrow> last (idMappingStack t) k = Some v \<Longrightarrow> v \<noteq> [] \<Longrightarrow>
     last (idMappingStack t') k = Some v"
  by (induction ms arbitrary: t ns)
     (auto split: sum.splits prod.splits dest: gtv_keeps)

lemma names_entry:
  "getTempVarNames t ms = Inr (ns, t') \<Longrightarrow> i < length ms \<Longrightarrow> moduleNameOf (ms ! i) = Some k \<Longrightarrow>
     last (idMappingStack t') k = Some (ns ! i)"
proof (induction ms arbitrary: t ns i)
  case Nil
  then show ?case by simp
next
  case (Cons a ms)
  from Cons.prems(1) obtain n t1 ns' where
    a: "getTempVarNameForModuleSpecifier t a = Inr (n, t1)"
    and r: "getTempVarNames t1 ms = Inr (ns', t')" and ns: "ns = n # ns'"
    by (auto split: sum.splits prod.splits)
  show ?case
  proof (cases i)
    case 0
    with Cons.prems(3) gtv_entry [OF a] have "last (idMappingStack t1) k = Some n" "n \<noteq> []"
      by simp_all
    from names_keeps [OF r this] 0 ns show ?thesis by simp
  next
    case (Suc j)
    with Cons.prems Cons.IH [OF r, of j] ns show ?thesis by simp
  qed
qed

lemma names_total:
  "\<forall>m \<in> set ms. moduleNameOf m \<noteq> None \<Longrightarrow> idMappingStack t \<noteq> [] \<Longrightarrow>
     \<exists>ns t'. getTempVarNames t ms = Inr (ns, t')"
proof (induction ms arbitrary: t)
  case Nil
  then show ?case by simp
next
  case (Cons a ms)
  then obtain n t1 where a: "getTempVarNameForModuleSpecifier t a = Inr (n, t1)"
    using gtv_total [of a t] by auto
  with gtv_frame [OF a] Cons.prems have "idMappingStack t1 \<noteq> []"
    by (auto simp: frame_def)
  from Cons.IH [OF _ this] Cons.prems a show ?case by auto
qed

section \<open>What the pass leaves unchanged\<close>

lemma frame_url: "frame t' = frame t \<Longrightarrow> url t' = url t"
  by (simp add: frame_def url_def split: option.splits)

lemma getGetterExport_frame:
  "getGetterExport t s = Inr (p, t') \<Longrightarrow> frame t' = frame t"
  by (auto simp: getGetterExport_def split: tree.splits option.splits sum.splits dest: gtv_frame)

lemma getGetterExports_frame:
  "getGetterExports t ss = Inr (ps, t') \<Longrightarrow> frame t' = frame t"
  by (induction ss arbitrary: t ps)
     (auto split: sum.splits prod.splits dest: getGetterExport_frame)

lemma createExportStatement_frame:
  "createExportStatement t = Inr (p, t') \<Longrightarrow> frame t' = frame t"
  by (auto simp: createExportStatement_def split: option.splits sum.splits dest: getGetterExports_frame)

lemma frame_push_pop: "frame t' = frame (pushTempVarState t) \<Longrightarrow> frame (popTempVarState t') = frame t"
  by (auto simp: frame_def pushTempVarState_def popTempVarState_def)

lemmas transform_induct =
  transformAny_transformList_transformModule_transformExportDeclaration_transformNamedExport_transformModuleDeclaration_transformImportDeclaration_transformImportSpecifierSet.induct

lemma transform_frame:
  "framed t (transformAny t tr)"
  "framed t (transformList t trs)"
  "framed t (transformModule t l trs)"
  "framed t (transformExportDeclaration t tr)"
  "framed t (transformNamedExport t tro)"
  "framed t (transformModuleDeclaration t ident tr)"
  "framed t (transformImportDeclaration t tr tr2)"
  "framed t (transformImportSpecifierSet t l sp)"
  by (induction t tr and t trs and t l trs and t tr and t tro and t ident tr and t tr tr2 and t l sp
      rule: transform_induct)
     (auto simp: framed_def Let_def split: sum.splits prod.splits option.splits
           dest!: gtv_frame createExportStatement_frame dest: frame_push_pop)

section \<open>Re-exports\<close>

lemma reExportToken_SomeD:
  assumes "reExportToken x = Some tok"
  obtains l l' s where "x = NamedExport l (Some (ModuleSpecifier l' tok)) s"
  using assms by (cases x rule: reExportToken.cases) auto

lemma transformAny_reExport:
  "transformAny t (NamedExport l (Some (ModuleSpecifier l' tok)) s) =
     (case getTempVarNameForModuleSpecifier t (ModuleSpecifier None tok) of
        Inl e \<Rightarrow> Inl e
      | Inr (n, t') \<Rightarrow> Inr (lookupStatement n tok, t'))"
  by (simp add: lookupStatement_def transformModuleSpecifier_def createVariableStatement_def
        createBindingIdentifier_def createIdentifierToken_def split: sum.splits)

lemma transformList_reExports:
  assumes "map reExportToken xs = map Some toks"
  shows "transformList t xs =
     (case getTempVarNames t (map (ModuleSpecifier None) toks) of
        Inl e \<Rightarrow> Inl e
      | Inr (ns, t') \<Rightarrow> Inr (map2 lookupStatement ns toks, t'))"
  using assms
proof (induction xs arbitrary: t toks)
  case Nil
  then show ?case by simp
next
  case (Cons x xs)
  then obtain tok toks' where toks: "toks = tok # toks'" and x: "reExportToken x = Some tok"
    and rest: "map reExportToken xs = map Some toks'"
    by (cases toks) auto
  from x obtain l l' s where xe: "x = NamedExport l (Some (ModuleSpecifier l' tok)) s"
    by (rule reExportToken_SomeD)
  show ?case
    unfolding toks xe
    by (simp only: transformList.simps transformAny_reExport Cons.IH [OF rest] list.map getTempVarNames.simps)
       (simp split: sum.splits prod.splits)
qed

lemma transformList_length:
  "transformList t xs = Inr (ys, t') \<Longrightarrow> length ys = length xs"
  by (induction xs arbitrary: t ys) (auto split: sum.splits prod.splits)

lemma names_same:
  assumes "getTempVarNames t ms = Inr (ns, t')" "i < length ms" "j < length ms"
    "moduleNameOf (ms ! i) = moduleNameOf (ms ! j)"
  shows "ns ! i = ns ! j"
proof -
  from assms(1) have "\<exists>k. moduleNameOf m = Some k" if "m \<in> set ms" for m
    using that
    by (induction ms arbitrary: t ns) (auto split: sum.splits prod.splits elim: gtv_elim)
  with assms(2) obtain k where k: "moduleNameOf (ms ! i) = Some k"
    by (meson nth_mem)
  from names_entry [OF assms(1,2) k] names_entry [OF assms(1,3)] k assms(4)
  show ?thesis by simp
qed

lemma names_distinct:
  assumes "getTempVarNames t ms = Inr (ns, t')" "scopeInv t" "i < length ms" "j < length ms"
    "moduleNameOf (ms ! i) \<noteq> moduleNameOf (ms ! j)"
  shows "ns ! i \<noteq> ns ! j"
proof
  assume eq: "ns ! i = ns ! j"
  from assms(1) have some: "\<exists>k. moduleNameOf m = Some k" if "m \<in> set ms" for m
    using that
    by (induction ms arbitrary: t ns) (auto split: sum.splits prod.splits elim: gtv_elim)
  from some assms(3) obtain k where k: "moduleNameOf (ms ! i) = Some k"
    by (meson nth_mem)
  from some assms(4) obtain k' where k': "moduleNameOf (ms ! j) = Some k'"
    by (meson nth_mem)
  have "last (idMappingStack t') k = Some (ns ! i)" "last (idMappingStack t') k' = Some (ns ! i)"
    using names_entry [OF assms(1,3) k] names_entry [OF assms(1,4) k'] eq by simp_all
  moreover from names_scopeInv [OF assms(1,2)] have "scopeInv t'" .
  ultimately have "k = k'"
    unfolding scopeInv_def by blast
  with k k' assms(5) show False by simp
qed

section \<open>The code builds the output of the spec\<close>

lemma getterDescriptor_wire: "getterDescriptor nm e = wireDescriptor nm e"
  by (simp add: getterDescriptor_def wireDescriptor_def createIdentifierToken_def)

lemma exportReturnStatement_wire:
  "exportReturnStatement (createObjectLiteralExpression ps) = wireExportReturn ps"
  by (simp add: exportReturnStatement_def wireExportReturn_def createObjectLiteralExpression_def
        memberPath_def createMemberExpression_def createIdentifierExpression_def
        createIdentifierToken_def)

lemma createUseStrictDirective_wire: "createUseStrictDirective = wireUseStrict"
  by (simp add: createUseStrictDirective_def wireUseStrict_def)

lemma registerStatement_wire: "registerStatement u body = wireRegister u body"
  by (simp add: registerStatement_def wireRegister_def memberPath_def createMemberExpression_def
        createIdentifierExpression_def createIdentifierToken_def)

lemma systemGet_wire: "systemGet token = wireLookup token"
  by (simp add: systemGet_def wireLookup_def memberPath_def createMemberExpression_def
        createIdentifierExpression_def createIdentifierToken_def)

lemma lookupStatement_wire: "lookupStatement n token = wireLookupStatement n token"
  by (simp add: lookupStatement_def wireLookupStatement_def systemGet_wire)

lemma getGetterExport_reads:
  assumes "symbolResolved s" "idMappingStack t \<noteq> []"
  shows "\<exists>e t'. getGetterExport t s = Inr (wireDescriptor (name s) e, t') \<and> getterReads s e"
proof (cases "relatedTree s")
  case None
  with assms(1) show ?thesis
    by (cases "tree s")
       (auto simp: getGetterExport_def symbolResolved_def getterReads_def getterDescriptor_wire
          createIdentifierExpression_def createIdentifierToken_def)
next
  case (Some r)
  with assms obtain n t1 where "getTempVarNameForModuleSpecifier t r = Inr (n, t1)"
    using gtv_total [of r t] by (auto simp: symbolResolved_def)
  with Some show ?thesis
    by (cases "tree s")
       (auto simp: getGetterExport_def getterReads_def getterDescriptor_wire
          createMemberExpression_def createIdentifierExpression_def createIdentifierToken_def)
qed

lemma getGetterExports_reads:
  "\<forall>s \<in> set ss. symbolResolved s \<Longrightarrow> idMappingStack t \<noteq> [] \<Longrightarrow>
     \<exists>ps t'. getGetterExports t ss = Inr (ps, t') \<and>
       list_all2 (\<lambda>p s. \<exists>e. p = wireDescriptor (name s) e \<and> getterReads s e) ps ss"
proof (induction ss arbitrary: t)
  case Nil
  then show ?case by simp
next
  case (Cons s ss)
  then obtain e t1 where s: "getGetterExport t s = Inr (wireDescriptor (name s) e, t1)"
    and r: "getterReads s e"
    using getGetterExport_reads [of s t] by auto
  with getGetterExport_frame [OF s] Cons.prems have "idMappingStack t1 \<noteq> []"
    by (auto simp: frame_def)
  from Cons.IH [OF _ this] Cons.prems obtain ps t' where
    "getGetterExports t1 ss = Inr (ps, t')"
    "list_all2 (\<lambda>p s. \<exists>e. p = wireDescriptor (name s) e \<and> getterReads s e) ps ss"
    by auto
  with s r show ?case by auto
qed

lemma createExportStatement_reads:
  assumes "module t = Some m" "list_all symbolResolved (getExports m)" "idMappingStack t \<noteq> []"
  shows "\<exists>entries t'.
           createExportStatement t = Inr (wireExportReturn entries, t') \<and>
           list_all2 (\<lambda>p s. \<exists>e. p = wireDescriptor (name s) e \<and> getterReads s e)
             entries (getExports m)"
proof -
  from assms(2) have "\<forall>s \<in> set (getExports m). symbolResolved s"
    by (simp add: list_all_iff)
  from getGetterExports_reads [OF this assms(3)] obtain ps t' where
    "getGetterExports t (getExports m) = Inr (ps, t')"
    "list_all2 (\<lambda>p s. \<exists>e. p = wireDescriptor (name s) e \<and> getterReads s e) ps (getExports m)"
    by blast
  with assms(1) show ?thesis
    by (auto simp: createExportStatement_def exportReturnStatement_wire)
qed

section \<open>The handlers rewrite the statements as the spec gives them\<close>

lemma unhandled_copied: "\<not> handledKind x \<Longrightarrow> transformAny t x = Inr (x, t)"
  by (cases x) simp_all

lemma loweredInitializer_transformAny:
  "loweredInitializer e = Some i \<Longrightarrow> transformAny t e = Inr (i, t)"
  by (cases e) (auto simp: transformModuleSpecifier_def systemGet_wire split: if_splits)

lemma loweredField_transformAny:
  "loweredField x = Some f \<Longrightarrow> transformAny t x = Inr (f, t)"
  by (cases x rule: loweredField.cases)
     (simp_all add: transformImportSpecifier_def createBindingIdentifier_def)

lemma loweredFields_transformList:
  "those (map loweredField xs) = Some fs \<Longrightarrow> transformList t xs = Inr (fs, t)"
  by (induction xs arbitrary: fs)
     (auto split: option.splits simp: loweredField_transformAny)

lemma loweredPattern_transform:
  "loweredPattern (project t) l specs = Some pat \<Longrightarrow>
     transformImportSpecifierSet t l specs = Inr (pat, t)"
  by (cases specs)
     (auto split: option.splits
        simp: loweredFields_transformList createBindingIdentifier_def createIdentifierToken_def)

lemma specifierSet_SomeD: "specifierSet x = Some (l, specs) \<Longrightarrow> x = ImportSpecifierSet l specs"
  by (cases x) simp_all

lemma specifierToken_SomeD: "specifierToken x = Some token \<Longrightarrow> \<exists>l. x = ModuleSpecifier l token"
  by (cases x) simp_all

lemma loweredItem_transformAny:
  "loweredItem t x = Some (y, t') \<Longrightarrow> transformAny t x = Inr (y, t')"
proof (induction t x rule: loweredItem.induct)
  case (1 t l importSpecifierSet moduleSpecifier)
  show ?case
  proof (cases "specifierSet importSpecifierSet")
    case None
    with "1.prems" show ?thesis by simp
  next
    case set: (Some p)
    obtain l' specs where p: "p = (l', specs)"
      by (cases p)
    show ?thesis
    proof (cases "specifierToken moduleSpecifier")
      case None
      with "1.prems" set p show ?thesis by simp
    next
      case tok: (Some token)
      show ?thesis
      proof (cases "loweredPattern (project t) l' specs")
        case None
        with "1.prems" set p tok show ?thesis by simp
      next
        case (Some pat)
        with "1.prems" set p tok have y: "y = VariableStatement VAR pat (wireLookup token)" "t' = t"
          by simp_all
        from specifierSet_SomeD [OF set [unfolded p]] specifierToken_SomeD [OF tok] obtain l'' where
          "importSpecifierSet = ImportSpecifierSet l' specs"
          "moduleSpecifier = ModuleSpecifier l'' token"
          by blast
        with y loweredPattern_transform [OF Some] show ?thesis
          by (simp add: transformModuleSpecifier_def systemGet_wire createVariableStatement_def
                del: transformImportSpecifierSet.simps)
      qed
    qed
  qed
next
  case (2 t l ident expression)
  then show ?case
    by (auto split: option.splits
          simp: loweredInitializer_transformAny createVariableStatement_def
            createBindingIdentifier_def)
next
  case (3 t l d)
  then show ?case by simp
next
  case (4 t l specifiers)
  then show ?case by simp
next
  case (5 t l moduleSpecifier specifiers)
  show ?case
  proof (cases "specifierToken moduleSpecifier")
    case None
    with "5.prems" show ?thesis by simp
  next
    case tok: (Some token)
    show ?thesis
    proof (cases "getTempVarNameForModuleSpecifier t moduleSpecifier")
      case (Inl e)
      with "5.prems" tok show ?thesis by simp
    next
      case (Inr r)
      obtain idName t1 where r: "r = (idName, t1)"
        by (cases r)
      with "5.prems" tok Inr have y: "y = wireLookupStatement idName token" "t' = t1"
        by simp_all
      from specifierToken_SomeD [OF tok] obtain l'' where
        m: "moduleSpecifier = ModuleSpecifier l'' token"
        by blast
      from Inr r y show ?thesis
        unfolding m
        by (simp add: transformModuleSpecifier_def systemGet_wire wireLookupStatement_def
              createVariableStatement_def createBindingIdentifier_def createIdentifierToken_def
              del: getTempVarNameForModuleSpecifier.simps)
    qed
  qed
qed (auto split: if_splits)

lemma loweredItems_transformList:
  "loweredItems t xs = Some (ys, t') \<Longrightarrow> transformList t xs = Inr (ys, t')"
  by (induction xs arbitrary: t ys)
     (auto split: option.splits simp: loweredItem_transformAny)

section \<open>Unfolding the example inputs\<close>

lemmas example_defs =
  exampleTransformer_def exampleModule_def exampleProject_def exampleTarget_def
  exampleSpecifier_def exampleToken_def exampleReExport_def exampleEmptyProject_def
  newModuleTransformer_def

section \<open>Export emission: properties\<close>

text \<open>
  Claim C1. For a transformer of a module whose export symbols follow the data model
  (a related specifier is a module specifier, a star export has one),
  \<^verbatim>\<open>createExportStatement\<close> returns the one statement
  \<^verbatim>\<open>return Object.preventExtensions(Object.create(null, { <entries> }))\<close>, where the
  entries are exactly one per export symbol, in the order of the export list, each
  \<^verbatim>\<open><name>: { get: function() { return <expr>; }, enumerable: true }\<close> with the name of
  its symbol, a getter and \<^verbatim>\<open>enumerable: true\<close> only, and an expression that reads what
  the table of the spec gives for the symbol. The statement and the entries are given
  by the constructors of the trees.
\<close>

theorem createExportStatement_descriptors:
  assumes "module t = Some m" "list_all symbolResolved (getExports m)" "idMappingStack t \<noteq> []"
  shows "\<exists>entries t'.
           createExportStatement t = Inr (wireExportReturn entries, t') \<and>
           list_all2 (\<lambda>p s. \<exists>e. p = wireDescriptor (name s) e \<and> getterReads s e)
             entries (getExports m)"
proof -
  from assms(2) have "\<forall>s \<in> set (getExports m). symbolResolved s"
    by (simp add: list_all_iff)
  from getGetterExports_reads [OF this assms(3)] obtain ps t' where
    "getGetterExports t (getExports m) = Inr (ps, t')"
    "list_all2 (\<lambda>p s. \<exists>e. p = wireDescriptor (name s) e \<and> getterReads s e) ps (getExports m)"
    by blast
  with assms(1) show ?thesis
    by (auto simp: createExportStatement_def exportReturnStatement_wire)
qed

theorem createExportStatement_descriptors_witness:
  "module exampleTransformer = Some exampleModule \<and>
   list_all symbolResolved (getExports exampleModule) \<and>
   idMappingStack exampleTransformer \<noteq> [] \<and>
   (\<exists>entries t'.
      createExportStatement exampleTransformer = Inr (wireExportReturn entries, t') \<and>
      list_all2 (\<lambda>p s. \<exists>e. p = wireDescriptor (name s) e \<and> getterReads s e)
        entries (getExports exampleModule))"
proof -
  have h1: "module exampleTransformer = Some exampleModule"
    by (simp add: example_defs)
  have h2: "list_all symbolResolved (getExports exampleModule)"
    by (simp add: example_defs symbolResolved_def)
  have h3: "idMappingStack exampleTransformer \<noteq> []"
    by (simp add: example_defs)
  from createExportStatement_descriptors [OF h1 h2 h3] h1 h2 h3 show ?thesis
    by blast
qed

text \<open>The statement for the example module, evaluated.\<close>

lemma createExportStatement_example:
  "map_sum id fst (createExportStatement exampleTransformer) =
     Inr (wireExportReturn
       [wireDescriptor ''a'' (IdentifierExpression (IdentifierToken None ''a'')),
        wireDescriptor ''c'' (wireMember ''$__0'' ''b''),
        wireDescriptor ''d'' (wireMember ''$__1'' ''d'')])"
  by code_simp

text \<open>
  Claim C4. The getter of an export symbol reads, by the kind of the tree the symbol
  comes from: for an \<open>ExportSpecifier\<close> with a related module specifier, the member named
  by the left-hand name of the specifier on the temporary name of that module
  specifier; for an \<open>ExportSpecifier\<close> without one, the left-hand identifier itself; for
  an \<open>ExportStar\<close>, the member named by the export on the temporary name of its related
  specifier; for every other kind, the identifier of the export's own name.
\<close>

theorem getGetterExport_table:
  "(tree s = ExportSpecifier l lhs rhs \<and> relatedTree s = Some ms \<and> moduleNameOf ms \<noteq> None \<and>
      idMappingStack t \<noteq> [] \<longrightarrow>
      (\<exists>idName t1. getTempVarNameForModuleSpecifier t ms = Inr (idName, t1) \<and>
         getGetterExport t s =
           Inr (getterDescriptor (name s)
                  (MemberExpression (IdentifierExpression (IdentifierToken None idName)) lhs), t1))) \<and>
   (tree s = ExportSpecifier l lhs rhs \<and> relatedTree s = None \<longrightarrow>
      getGetterExport t s = Inr (getterDescriptor (name s) (IdentifierExpression lhs), t)) \<and>
   (tree s = ExportStar l \<and> relatedTree s = Some ms \<and> moduleNameOf ms \<noteq> None \<and>
      idMappingStack t \<noteq> [] \<longrightarrow>
      (\<exists>idName t1. getTempVarNameForModuleSpecifier t ms = Inr (idName, t1) \<and>
         getGetterExport t s =
           Inr (getterDescriptor (name s)
                  (MemberExpression (IdentifierExpression (IdentifierToken None idName))
                     (IdentifierToken None (name s))), t1))) \<and>
   (treeType (tree s) \<noteq> EXPORT_SPECIFIER \<and> treeType (tree s) \<noteq> EXPORT_STAR \<longrightarrow>
      getGetterExport t s =
        Inr (getterDescriptor (name s) (IdentifierExpression (IdentifierToken None (name s))), t))"
proof (intro conjI impI)
  assume "tree s = ExportSpecifier l lhs rhs \<and> relatedTree s = Some ms \<and> moduleNameOf ms \<noteq> None \<and>
      idMappingStack t \<noteq> []"
  then show "\<exists>idName t1. getTempVarNameForModuleSpecifier t ms = Inr (idName, t1) \<and>
         getGetterExport t s =
           Inr (getterDescriptor (name s)
                  (MemberExpression (IdentifierExpression (IdentifierToken None idName)) lhs), t1)"
    using gtv_total [of ms t]
    by (auto simp: getGetterExport_def createMemberExpression_def createIdentifierExpression_def
          createIdentifierToken_def)
next
  assume "tree s = ExportSpecifier l lhs rhs \<and> relatedTree s = None"
  then show "getGetterExport t s = Inr (getterDescriptor (name s) (IdentifierExpression lhs), t)"
    by (simp add: getGetterExport_def createIdentifierExpression_def)
next
  assume "tree s = ExportStar l \<and> relatedTree s = Some ms \<and> moduleNameOf ms \<noteq> None \<and>
      idMappingStack t \<noteq> []"
  then show "\<exists>idName t1. getTempVarNameForModuleSpecifier t ms = Inr (idName, t1) \<and>
         getGetterExport t s =
           Inr (getterDescriptor (name s)
                  (MemberExpression (IdentifierExpression (IdentifierToken None idName))
                     (IdentifierToken None (name s))), t1)"
    using gtv_total [of ms t]
    by (auto simp: getGetterExport_def createMemberExpression_def createIdentifierExpression_def
          createIdentifierToken_def)
next
  assume "treeType (tree s) \<noteq> EXPORT_SPECIFIER \<and> treeType (tree s) \<noteq> EXPORT_STAR"
  then show "getGetterExport t s =
        Inr (getterDescriptor (name s) (IdentifierExpression (IdentifierToken None (name s))), t)"
    by (cases "tree s")
       (simp_all add: getGetterExport_def createIdentifierExpression_def createIdentifierToken_def)
qed

theorem getGetterExport_table_witness:
  "(\<exists>idName t1.
      getTempVarNameForModuleSpecifier exampleTransformer (exampleSpecifier ''m'') = Inr (idName, t1) \<and>
      getGetterExport exampleTransformer
        \<lparr>name = ''c'',
         tree = ExportSpecifier None (IdentifierToken None ''b'') (Some (IdentifierToken None ''c'')),
         relatedTree = Some (exampleSpecifier ''m'')\<rparr> =
        Inr (getterDescriptor ''c''
               (MemberExpression (IdentifierExpression (IdentifierToken None idName))
                  (IdentifierToken None ''b'')), t1)) \<and>
   getGetterExport exampleTransformer
     \<lparr>name = ''c'',
      tree = ExportSpecifier None (IdentifierToken None ''b'') (Some (IdentifierToken None ''c'')),
      relatedTree = None\<rparr> =
     Inr (getterDescriptor ''c'' (IdentifierExpression (IdentifierToken None ''b'')),
          exampleTransformer) \<and>
   (\<exists>idName t1.
      getTempVarNameForModuleSpecifier exampleTransformer (exampleSpecifier ''n'') = Inr (idName, t1) \<and>
      getGetterExport exampleTransformer
        \<lparr>name = ''d'', tree = ExportStar None, relatedTree = Some (exampleSpecifier ''n'')\<rparr> =
        Inr (getterDescriptor ''d''
               (MemberExpression (IdentifierExpression (IdentifierToken None idName))
                  (IdentifierToken None ''d'')), t1)) \<and>
   getGetterExport exampleTransformer
     \<lparr>name = ''a'', tree = OtherTree ''var a'', relatedTree = None\<rparr> =
     Inr (getterDescriptor ''a'' (IdentifierExpression (IdentifierToken None ''a'')),
          exampleTransformer)"
proof -
  have stack: "idMappingStack exampleTransformer \<noteq> []"
    by (simp add: example_defs)
  have spec: "moduleNameOf (exampleSpecifier ''m'') \<noteq> None" "moduleNameOf (exampleSpecifier ''n'') \<noteq> None"
    by (simp_all add: example_defs)
  note table = getGetterExport_table [where t = exampleTransformer]
  from table [where s = "\<lparr>name = ''c'',
         tree = ExportSpecifier None (IdentifierToken None ''b'') (Some (IdentifierToken None ''c'')),
         relatedTree = Some (exampleSpecifier ''m'')\<rparr>" and ms = "exampleSpecifier ''m''"
         and l = None and lhs = "IdentifierToken None ''b''" and rhs = "Some (IdentifierToken None ''c'')"]
    stack spec
  have one: "\<exists>idName t1.
      getTempVarNameForModuleSpecifier exampleTransformer (exampleSpecifier ''m'') = Inr (idName, t1) \<and>
      getGetterExport exampleTransformer
        \<lparr>name = ''c'',
         tree = ExportSpecifier None (IdentifierToken None ''b'') (Some (IdentifierToken None ''c'')),
         relatedTree = Some (exampleSpecifier ''m'')\<rparr> =
        Inr (getterDescriptor ''c''
               (MemberExpression (IdentifierExpression (IdentifierToken None idName))
                  (IdentifierToken None ''b'')), t1)"
    by simp
  from table [where s = "\<lparr>name = ''c'',
      tree = ExportSpecifier None (IdentifierToken None ''b'') (Some (IdentifierToken None ''c'')),
      relatedTree = None\<rparr>" and l = None and lhs = "IdentifierToken None ''b''"
      and rhs = "Some (IdentifierToken None ''c'')"]
  have two: "getGetterExport exampleTransformer
     \<lparr>name = ''c'',
      tree = ExportSpecifier None (IdentifierToken None ''b'') (Some (IdentifierToken None ''c'')),
      relatedTree = None\<rparr> =
     Inr (getterDescriptor ''c'' (IdentifierExpression (IdentifierToken None ''b'')),
          exampleTransformer)"
    by simp
  from table [where s = "\<lparr>name = ''d'', tree = ExportStar None,
      relatedTree = Some (exampleSpecifier ''n'')\<rparr>" and ms = "exampleSpecifier ''n''" and l = None]
    stack spec
  have three: "\<exists>idName t1.
      getTempVarNameForModuleSpecifier exampleTransformer (exampleSpecifier ''n'') = Inr (idName, t1) \<and>
      getGetterExport exampleTransformer
        \<lparr>name = ''d'', tree = ExportStar None, relatedTree = Some (exampleSpecifier ''n'')\<rparr> =
        Inr (getterDescriptor ''d''
               (MemberExpression (IdentifierExpression (IdentifierToken None idName))
                  (IdentifierToken None ''d'')), t1)"
    by simp
  from table [where s = "\<lparr>name = ''a'', tree = OtherTree ''var a'', relatedTree = None\<rparr>"]
  have four: "getGetterExport exampleTransformer
     \<lparr>name = ''a'', tree = OtherTree ''var a'', relatedTree = None\<rparr> =
     Inr (getterDescriptor ''a'' (IdentifierExpression (IdentifierToken None ''a'')),
          exampleTransformer)"
    by simp
  from one two three four show ?thesis
    by (intro conjI)
qed

text \<open>
  Claim C5. For an export symbol that comes from an \<open>ExportStar\<close>, \<^verbatim>\<open>getGetterExport\<close>
  fails with the assertion error, and so returns no descriptor, exactly when the related
  specifier is missing.
\<close>

theorem getGetterExport_star_assertion:
  "tree s = ExportStar l \<Longrightarrow>
     (getGetterExport t s = Inl AssertionError) = (relatedTree s = None)"
proof (cases "relatedTree s")
  case None
  assume "tree s = ExportStar l"
  with None show ?thesis
    by (simp add: getGetterExport_def)
next
  case (Some ms)
  assume "tree s = ExportStar l"
  with Some show ?thesis
    by (cases ms) (auto simp: getGetterExport_def Let_def getTempIdentifier_def
         split: sum.splits option.splits if_splits)
qed

theorem getGetterExport_star_assertion_witness:
  "tree \<lparr>name = ''d'', tree = ExportStar None, relatedTree = None\<rparr> = ExportStar None \<and>
   getGetterExport exampleTransformer \<lparr>name = ''d'', tree = ExportStar None, relatedTree = None\<rparr> =
     Inl AssertionError \<and>
   getGetterExport exampleTransformer
     \<lparr>name = ''d'', tree = ExportStar None, relatedTree = Some (exampleSpecifier ''n'')\<rparr> \<noteq>
     Inl AssertionError"
  using getGetterExport_star_assertion
      [of "\<lparr>name = ''d'', tree = ExportStar None, relatedTree = None\<rparr>" None exampleTransformer]
    getGetterExport_star_assertion
      [of "\<lparr>name = ''d'', tree = ExportStar None, relatedTree = Some (exampleSpecifier ''n'')\<rparr>"
          None exampleTransformer]
  by simp

section \<open>The module entry point: properties\<close>

text \<open>
  The wrapper, for any statement list whose rewriting in the fresh scope succeeds.
\<close>

lemma transformModule_wrapper:
  assumes "url t = Some u" "u \<noteq> []"
    "module t = Some m" "list_all symbolResolved (getExports m)"
    "transformList (pushTempVarState t) scriptItemList = Inr (items, t1)"
  shows "\<exists>entries t2.
           createExportStatement t1 = Inr (wireExportReturn entries, t2) \<and>
           list_all2 (\<lambda>p s. \<exists>e. p = wireDescriptor (name s) e \<and> getterReads s e)
             entries (getExports m) \<and>
           transformModule t l scriptItemList =
             Inr (Script l [wireRegister u (wireUseStrict # items @ [wireExportReturn entries])],
                  popTempVarState t2)"
proof -
  from transform_frame(2) [of "pushTempVarState t" scriptItemList] assms(5)
  have f1: "frame t1 = frame (pushTempVarState t)"
    by (simp add: framed_def)
  then have m1: "module t1 = Some m" and s1: "idMappingStack t1 \<noteq> []"
    using assms(3) by (auto simp: frame_def pushTempVarState_def)
  from createExportStatement_reads [OF m1 assms(4) s1] obtain entries t2 where
    e: "createExportStatement t1 = Inr (wireExportReturn entries, t2)"
    and d: "list_all2 (\<lambda>p s. \<exists>e. p = wireDescriptor (name s) e \<and> getterReads s e)
             entries (getExports m)"
    by blast
  from createExportStatement_frame [OF e] f1 have "frame t2 = frame (pushTempVarState t)"
    by simp
  then have "frame (popTempVarState t2) = frame t"
    by (rule frame_push_pop)
  then have "url (popTempVarState t2) = url t"
    by (rule frame_url)
  then have "transformModule t l scriptItemList =
      Inr (Script l [wireRegister u (wireUseStrict # items @ [wireExportReturn entries])],
           popTempVarState t2)"
    by (simp add: assms e registerStatement_wire createUseStrictDirective_wire)
  with e d show ?thesis
    by blast
qed

text \<open>
  Claim C2. For a transformer of a module whose URL is present and not empty and whose
  export symbols follow the data model, and a statement list that the lowering of the
  spec (sections 4.3 and 4.4) maps to \<open>items\<close> in the fresh scope: the rewriting of the
  list returns exactly \<open>items\<close> (import, export and alias statements replaced, every
  other statement copied, one statement for each input statement), the export emission
  after it returns its return statement, and \<^verbatim>\<open>transformModule\<close> returns a \<open>Script\<close> at
  the location of the module whose only statement is
  \<^verbatim>\<open>System.get('@traceur/module').registerModule(<url>, function() { ... }, this)\<close>;
  the body of the function is the \<^verbatim>\<open>"use strict"\<close> directive first, then \<open>items\<close> in order,
  then the export statement last. The generic walk reaches \<^verbatim>\<open>transformModule\<close> for a
  \<open>Module\<close> tree. The output is given by the constructors of the trees.
\<close>

theorem transformModule_registers:
  assumes "url t = Some u" "u \<noteq> []"
    "module t = Some m" "list_all symbolResolved (getExports m)"
    "loweredItems (pushTempVarState t) scriptItemList = Some (items, t1)"
  shows "\<exists>entries t2.
           transformList (pushTempVarState t) scriptItemList = Inr (items, t1) \<and>
           createExportStatement t1 = Inr (wireExportReturn entries, t2) \<and>
           list_all2 (\<lambda>p s. \<exists>e. p = wireDescriptor (name s) e \<and> getterReads s e)
             entries (getExports m) \<and>
           transformModule t l scriptItemList =
             Inr (Script l [wireRegister u (wireUseStrict # items @ [wireExportReturn entries])],
                  popTempVarState t2) \<and>
           transformAny t (Module l scriptItemList) = transformModule t l scriptItemList \<and>
           length items = length scriptItemList"
proof -
  from assms(5) have r: "transformList (pushTempVarState t) scriptItemList = Inr (items, t1)"
    by (rule loweredItems_transformList)
  have "transformAny t (Module l scriptItemList) = transformModule t l scriptItemList"
    by (simp del: transformModule.simps)
  with transformModule_wrapper [OF assms(1-4) r, of l] r transformList_length [OF r]
  show ?thesis
    by blast
qed

theorem transformModule_registers_witness:
  "url exampleTransformer = Some ''a.js'' \<and> ''a.js'' \<noteq> [] \<and>
   module exampleTransformer = Some exampleModule \<and>
   list_all symbolResolved (getExports exampleModule) \<and>
   (\<exists>t1 entries t2.
      loweredItems (pushTempVarState exampleTransformer)
        [OtherTree ''var a = 1'',
         ImportDeclaration None (ImportSpecifierSet None STAR) (exampleSpecifier ''b''),
         ModuleDeclaration None (IdentifierToken None ''q'') (exampleSpecifier ''p''),
         ExportDeclaration None (exampleReExport ''b'' ''m''),
         NamedExport None None (ExportSpecifierSet None [])] =
        Some ([OtherTree ''var a = 1'',
               VariableStatement VAR
                 (ObjectPattern None
                    [BindingElement None (BindingIdentifier None (IdentifierToken None ''x'')) None,
                     BindingElement None (BindingIdentifier None (IdentifierToken None ''y'')) None])
                 (wireLookup (exampleToken ''b'')),
               VariableStatement VAR (BindingIdentifier None (IdentifierToken None ''q''))
                 (wireLookup (exampleToken ''p'')),
               wireLookupStatement ''$__0'' (exampleToken ''m''),
               EmptyStatement None], t1) \<and>
      transformModule exampleTransformer None
        [OtherTree ''var a = 1'',
         ImportDeclaration None (ImportSpecifierSet None STAR) (exampleSpecifier ''b''),
         ModuleDeclaration None (IdentifierToken None ''q'') (exampleSpecifier ''p''),
         ExportDeclaration None (exampleReExport ''b'' ''m''),
         NamedExport None None (ExportSpecifierSet None [])] =
        Inr (Script None
               [wireRegister ''a.js''
                  (wireUseStrict #
                   [OtherTree ''var a = 1'',
                    VariableStatement VAR
                      (ObjectPattern None
                         [BindingElement None (BindingIdentifier None (IdentifierToken None ''x'')) None,
                          BindingElement None (BindingIdentifier None (IdentifierToken None ''y'')) None])
                      (wireLookup (exampleToken ''b'')),
                    VariableStatement VAR (BindingIdentifier None (IdentifierToken None ''q''))
                      (wireLookup (exampleToken ''p'')),
                    wireLookupStatement ''$__0'' (exampleToken ''m''),
                    EmptyStatement None] @
                   [wireExportReturn entries])], popTempVarState t2))"
proof -
  let ?xs = "[OtherTree ''var a = 1'',
         ImportDeclaration None (ImportSpecifierSet None STAR) (exampleSpecifier ''b''),
         ModuleDeclaration None (IdentifierToken None ''q'') (exampleSpecifier ''p''),
         ExportDeclaration None (exampleReExport ''b'' ''m''),
         NamedExport None None (ExportSpecifierSet None [])]"
  let ?ys = "[OtherTree ''var a = 1'',
               VariableStatement VAR
                 (ObjectPattern None
                    [BindingElement None (BindingIdentifier None (IdentifierToken None ''x'')) None,
                     BindingElement None (BindingIdentifier None (IdentifierToken None ''y'')) None])
                 (wireLookup (exampleToken ''b'')),
               VariableStatement VAR (BindingIdentifier None (IdentifierToken None ''q''))
                 (wireLookup (exampleToken ''p'')),
               wireLookupStatement ''$__0'' (exampleToken ''m''),
               EmptyStatement None]"
  have h1: "url exampleTransformer = Some ''a.js''"
    by (simp add: example_defs url_def)
  have h2: "''a.js'' \<noteq> []"
    by simp
  have h3: "module exampleTransformer = Some exampleModule"
    by (simp add: example_defs)
  have h4: "list_all symbolResolved (getExports exampleModule)"
    by (simp add: example_defs symbolResolved_def)
  have "\<exists>t1. loweredItems (pushTempVarState exampleTransformer) ?xs = Some (?ys, t1)"
    by (simp add: example_defs pushTempVarState_def getTempIdentifier_def Let_def
          generateUniqueIdentifier_def decimal.simps digitChar_def)
  then obtain t1 where
    h5: "loweredItems (pushTempVarState exampleTransformer) ?xs = Some (?ys, t1)"
    by blast
  from transformModule_registers [OF h1 h2 h3 h4 h5, where l = None] h1 h2 h3 h4 h5
  show ?thesis
    by blast
qed

text \<open>
  A whole module, evaluated: a statement of its own, a wildcard import of the module
  with the exports \<^verbatim>\<open>x\<close> and \<^verbatim>\<open>y\<close>, a re-export from \<^verbatim>\<open>'m'\<close> and a named export without
  specifier.
\<close>

lemma transformAsModule_example:
  "transformAsModule exampleProject (Some exampleModule)
     (Module None
        [OtherTree ''var a = 1'',
         ImportDeclaration None (ImportSpecifierSet None STAR) (exampleSpecifier ''b''),
         ExportDeclaration None (exampleReExport ''b'' ''m''),
         NamedExport None None (ExportSpecifierSet None [])]) =
   Inr (Script None
     [wireRegister ''a.js''
        [wireUseStrict,
         OtherTree ''var a = 1'',
         VariableStatement VAR
           (ObjectPattern None
              [BindingElement None (BindingIdentifier None (IdentifierToken None ''x'')) None,
               BindingElement None (BindingIdentifier None (IdentifierToken None ''y'')) None])
           (wireLookup (exampleToken ''b'')),
         wireLookupStatement ''$__0'' (exampleToken ''m''),
         EmptyStatement None,
         wireExportReturn
           [wireDescriptor ''a'' (IdentifierExpression (IdentifierToken None ''a'')),
            wireDescriptor ''c'' (wireMember ''$__0'' ''b''),
            wireDescriptor ''d'' (wireMember ''$__1'' ''d'')]]])"
  by code_simp

section \<open>Entry points: properties\<close>

text \<open>
  Claim C6. The entry points assert their preconditions: the static \<^verbatim>\<open>transform\<close> fails
  with the assertion error on a tree that is not a \<open>Script\<close>; the static
  \<^verbatim>\<open>transformAsModule\<close> fails with it on a tree that is not a \<open>Module\<close> and when no module
  is given; \<^verbatim>\<open>transformModule\<close> fails with it, returning no statement, when the URL is
  missing or the empty string.
\<close>

theorem entry_points_assert:
  "(treeType tr \<noteq> SCRIPT \<longrightarrow> transform p tr = Inl AssertionError) \<and>
   (treeType tr \<noteq> MODULE \<or> m = None \<longrightarrow> transformAsModule p m tr = Inl AssertionError) \<and>
   (url t = None \<or> url t = Some [] \<longrightarrow>
      transformModule t l scriptItemList = Inl AssertionError \<and>
      transformAny t (Module l scriptItemList) = Inl AssertionError)"
  by (auto simp: transform_def transformAsModule_def)

theorem entry_points_assert_witness:
  "transform exampleProject (Module None []) = Inl AssertionError \<and>
   transformAsModule exampleProject (Some exampleModule) (Script None []) = Inl AssertionError \<and>
   transformAsModule exampleProject None (Module None []) = Inl AssertionError \<and>
   url (newModuleTransformer exampleProject None) = None \<and>
   transformModule (newModuleTransformer exampleProject None) None [] = Inl AssertionError \<and>
   url (newModuleTransformer exampleProject (Some (exampleModule\<lparr>module_url := Some []\<rparr>))) = Some [] \<and>
   transformAny (newModuleTransformer exampleProject (Some (exampleModule\<lparr>module_url := Some []\<rparr>)))
     (Module None [OtherTree ''var a = 1'']) = Inl AssertionError"
proof -
  have u1: "url (newModuleTransformer exampleProject None) = None"
    by (simp add: url_def example_defs)
  have u2: "url (newModuleTransformer exampleProject (Some (exampleModule\<lparr>module_url := Some []\<rparr>))) = Some []"
    by (simp add: url_def example_defs)
  have "treeType (Module None []) \<noteq> SCRIPT" "treeType (Script None []) \<noteq> MODULE"
    by simp_all
  with u1 u2
    entry_points_assert [where tr = "Module None []" and p = exampleProject]
    entry_points_assert [where tr = "Script None []" and m = "Some exampleModule"
      and p = exampleProject]
    entry_points_assert [where tr = "Module None []" and m = None and p = exampleProject]
    entry_points_assert [where t = "newModuleTransformer exampleProject None" and l = None
      and scriptItemList = "[]"]
    entry_points_assert [where t = "newModuleTransformer exampleProject
      (Some (exampleModule\<lparr>module_url := Some []\<rparr>))" and l = None
      and scriptItemList = "[OtherTree ''var a = 1'']"]
  show ?thesis
    by (simp del: transformAny.simps transformModule.simps)
qed

section \<open>Import lowering: properties\<close>

text \<open>
  Claim C7. For a wildcard import specifier set whose target module is resolved,
  \<^verbatim>\<open>transformImportSpecifierSet\<close> returns an object pattern with exactly one field per
  entry of the export list of the target, in the order of that list, each field the
  binding of the name of the export to a local of the same name; the import declaration
  lowers to the variable statement that binds this pattern to the lookup of the module
  specifier. The state of the transformer does not change.
\<close>

theorem wildcard_import_expands:
  assumes "getModuleForStarTree (project t) (ImportSpecifierSet l STAR) = Some m"
  shows "transformImportSpecifierSet t l STAR =
           Inr (ObjectPattern None (map (starField l) (getExports m)), t) \<and>
         transformAny t (ImportDeclaration l' (ImportSpecifierSet l STAR) (ModuleSpecifier l'' token)) =
           Inr (VariableStatement VAR (ObjectPattern None (map (starField l) (getExports m)))
                  (systemGet token), t)"
  using assms
  by (simp add: starField_def createBindingIdentifier_def createIdentifierToken_def
        createVariableStatement_def transformModuleSpecifier_def cong: map_cong)

theorem wildcard_import_expands_witness:
  "getModuleForStarTree (project exampleTransformer) (ImportSpecifierSet None STAR) = Some exampleTarget \<and>
   transformImportSpecifierSet exampleTransformer None STAR =
     Inr (ObjectPattern None
            [BindingElement None (BindingIdentifier None (IdentifierToken None ''x'')) None,
             BindingElement None (BindingIdentifier None (IdentifierToken None ''y'')) None],
          exampleTransformer) \<and>
   transformAny exampleTransformer
     (ImportDeclaration None (ImportSpecifierSet None STAR) (ModuleSpecifier None (exampleToken ''b''))) =
     Inr (VariableStatement VAR
            (ObjectPattern None
              [BindingElement None (BindingIdentifier None (IdentifierToken None ''x'')) None,
               BindingElement None (BindingIdentifier None (IdentifierToken None ''y'')) None])
            (systemGet (exampleToken ''b'')), exampleTransformer)"
proof -
  have h: "getModuleForStarTree (project exampleTransformer) (ImportSpecifierSet None STAR) =
      Some exampleTarget"
    by (simp add: exampleTransformer_def exampleProject_def newModuleTransformer_def)
  have e: "map (starField None) (getExports exampleTarget) =
      [BindingElement None (BindingIdentifier None (IdentifierToken None ''x'')) None,
       BindingElement None (BindingIdentifier None (IdentifierToken None ''y'')) None]"
    by (simp add: exampleTarget_def starField_def)
  from wildcard_import_expands [OF h, where l' = None and l'' = None
      and token = "exampleToken ''b''"] h e show ?thesis
    by (simp del: transformAny.simps transformImportSpecifierSet.simps)
qed

text \<open>
  Claim C10. When the target of a wildcard import is resolved to a module without
  exports, \<^verbatim>\<open>transformImportSpecifierSet\<close> returns the object pattern without fields, and
  the import declaration still lowers to a variable statement, with that empty pattern;
  no error is raised.
\<close>

theorem wildcard_import_of_empty_module:
  assumes "getModuleForStarTree (project t) (ImportSpecifierSet l STAR) = Some m"
    "getExports m = []"
  shows "transformImportSpecifierSet t l STAR = Inr (ObjectPattern None [], t) \<and>
         transformAny t (ImportDeclaration l' (ImportSpecifierSet l STAR) (ModuleSpecifier l'' token)) =
           Inr (VariableStatement VAR (ObjectPattern None []) (systemGet token), t)"
  using assms
  by (simp add: createVariableStatement_def transformModuleSpecifier_def)

theorem wildcard_import_of_empty_module_witness:
  "getModuleForStarTree (project (newModuleTransformer exampleEmptyProject None))
      (ImportSpecifierSet None STAR) = Some \<lparr>module_url = Some ''e.js'', getExports = []\<rparr> \<and>
   getExports \<lparr>module_url = Some ''e.js'', getExports = []\<rparr> = [] \<and>
   transformImportSpecifierSet (newModuleTransformer exampleEmptyProject None) None STAR =
     Inr (ObjectPattern None [], newModuleTransformer exampleEmptyProject None) \<and>
   transformAny (newModuleTransformer exampleEmptyProject None)
     (ImportDeclaration None (ImportSpecifierSet None STAR) (ModuleSpecifier None (exampleToken ''e''))) =
     Inr (VariableStatement VAR (ObjectPattern None []) (systemGet (exampleToken ''e'')),
          newModuleTransformer exampleEmptyProject None)"
proof -
  have h: "getModuleForStarTree (project (newModuleTransformer exampleEmptyProject None))
      (ImportSpecifierSet None STAR) = Some \<lparr>module_url = Some ''e.js'', getExports = []\<rparr>"
    by (simp add: exampleEmptyProject_def newModuleTransformer_def)
  have e: "getExports \<lparr>module_url = Some ''e.js'', getExports = []\<rparr> = []"
    by simp
  from wildcard_import_of_empty_module [OF h e, where l' = None and l'' = None
      and token = "exampleToken ''e''"] h e show ?thesis
    by (simp del: transformAny.simps transformImportSpecifierSet.simps)
qed

section \<open>Re-exports: properties\<close>

text \<open>
  Claim C9 says that a named export without module specifier contributes no statement
  to the output. The source returns an empty statement for it (line 169): the rewritten
  list of one such export has one statement, not none.
\<close>

theorem namedExport_without_specifier_counterexample:
  "map_sum id fst
     (transformList exampleTransformer
        [NamedExport None None
           (ExportSpecifierSet None [ExportSpecifier None (IdentifierToken None ''a'') None])]) =
     Inr [EmptyStatement None] \<and>
   map_sum id fst
     (transformList exampleTransformer
        [NamedExport None None
           (ExportSpecifierSet None [ExportSpecifier None (IdentifierToken None ''a'') None])]) \<noteq>
     Inr []"
  by simp

text \<open>
  Claim C9, as the source has it. A named export that carries a module specifier lowers
  to the variable statement that binds the temporary name of the specifier to the
  lookup \<^verbatim>\<open>System.get(<token>)\<close>. A named export without module specifier does not
  vanish from the output: it lowers to an empty statement without location, which takes
  its place in the rewritten statement list.
\<close>

theorem transformNamedExport_lowering:
  "(idMappingStack t \<noteq> [] \<longrightarrow>
      (\<exists>idName t1.
         getTempVarNameForModuleSpecifier t (ModuleSpecifier l' token) = Inr (idName, t1) \<and>
         transformNamedExport t (Some (ModuleSpecifier l' token)) =
           Inr (lookupStatement idName token, t1) \<and>
         transformAny t (NamedExport l (Some (ModuleSpecifier l' token)) s) =
           Inr (lookupStatement idName token, t1))) \<and>
   transformNamedExport t None = Inr (EmptyStatement None, t) \<and>
   transformAny t (NamedExport l None s) = Inr (EmptyStatement None, t) \<and>
   transformList t [NamedExport l None s] = Inr ([EmptyStatement None], t)"
proof (intro conjI impI)
  assume "idMappingStack t \<noteq> []"
  with gtv_total [of "ModuleSpecifier l' token" t] obtain idName t1 where
    n: "getTempVarNameForModuleSpecifier t (ModuleSpecifier l' token) = Inr (idName, t1)"
    by auto
  then have "transformNamedExport t (Some (ModuleSpecifier l' token)) =
      Inr (lookupStatement idName token, t1)"
    by (simp add: lookupStatement_def transformModuleSpecifier_def createVariableStatement_def
          createBindingIdentifier_def createIdentifierToken_def
          del: getTempVarNameForModuleSpecifier.simps)
  with n show "\<exists>idName t1.
         getTempVarNameForModuleSpecifier t (ModuleSpecifier l' token) = Inr (idName, t1) \<and>
         transformNamedExport t (Some (ModuleSpecifier l' token)) =
           Inr (lookupStatement idName token, t1) \<and>
         transformAny t (NamedExport l (Some (ModuleSpecifier l' token)) s) =
           Inr (lookupStatement idName token, t1)"
    by (simp del: getTempVarNameForModuleSpecifier.simps transformNamedExport.simps)
qed simp_all

theorem transformNamedExport_lowering_witness:
  "idMappingStack exampleTransformer \<noteq> [] \<and>
   (\<exists>idName t1.
      getTempVarNameForModuleSpecifier exampleTransformer (ModuleSpecifier None (exampleToken ''m'')) =
        Inr (idName, t1) \<and>
      transformNamedExport exampleTransformer (Some (ModuleSpecifier None (exampleToken ''m''))) =
        Inr (lookupStatement idName (exampleToken ''m''), t1)) \<and>
   transformNamedExport exampleTransformer None = Inr (EmptyStatement None, exampleTransformer)"
proof -
  have h: "idMappingStack exampleTransformer \<noteq> []"
    by (simp add: example_defs)
  from transformNamedExport_lowering [where t = exampleTransformer and l' = None
      and token = "exampleToken ''m''"] h
  show ?thesis
    by blast
qed

text \<open>
  Claim C3 says that re-exports from one specifier value yield exactly one lookup
  statement. Two re-export statements from \<^verbatim>\<open>'m'\<close> yield two, both binding \<^verbatim>\<open>$__0\<close>:
  every call of \<^verbatim>\<open>transformNamedExport\<close> with a specifier returns a statement (line 167).
\<close>

theorem reExports_counterexample:
  "map_sum id fst
     (transformList exampleTransformer [exampleReExport ''a'' ''m'', exampleReExport ''b'' ''m'']) =
     Inr [lookupStatement ''$__0'' (exampleToken ''m''), lookupStatement ''$__0'' (exampleToken ''m'')] \<and>
   map_sum id fst
     (transformList exampleTransformer [exampleReExport ''a'' ''m'', exampleReExport ''b'' ''m'']) \<noteq>
     Inr [lookupStatement ''$__0'' (exampleToken ''m'')]"
  by code_simp

text \<open>
  Claim C3, as the source has it. Calls of \<^verbatim>\<open>getTempVarNameForModuleSpecifier\<close> in one
  scope with module specifiers of the same \<^verbatim>\<open>processedValue\<close> return the same temporary
  name, however many calls lie between them. Every re-export statement lowers to a
  lookup statement of its own that binds the temporary name of its specifier: re-export
  statements of one specifier value share the name, and there are as many lookup
  statements as re-export statements.
\<close>

theorem reExports_share_temp_name:
  "(getTempVarNames t ms = Inr (ns, t') \<and> i < length ms \<and> j < length ms \<and>
      moduleNameOf (ms ! i) = moduleNameOf (ms ! j) \<longrightarrow> ns ! i = ns ! j) \<and>
   (map reExportToken xs = map Some toks \<and> idMappingStack t \<noteq> [] \<longrightarrow>
      (\<exists>names t''.
         getTempVarNames t (map (ModuleSpecifier None) toks) = Inr (names, t'') \<and>
         length names = length toks \<and>
         transformList t xs = Inr (map2 lookupStatement names toks, t'') \<and>
         (\<forall>a < length toks. \<forall>b < length toks.
            processedValue (toks ! a) = processedValue (toks ! b) \<longrightarrow> names ! a = names ! b)))"
proof (intro conjI impI)
  assume "getTempVarNames t ms = Inr (ns, t') \<and> i < length ms \<and> j < length ms \<and>
      moduleNameOf (ms ! i) = moduleNameOf (ms ! j)"
  then show "ns ! i = ns ! j"
    by (blast intro: names_same)
next
  assume a: "map reExportToken xs = map Some toks \<and> idMappingStack t \<noteq> []"
  then have "\<forall>m \<in> set (map (ModuleSpecifier None) toks). moduleNameOf m \<noteq> None"
    by auto
  from names_total [OF this] a obtain names t'' where
    n: "getTempVarNames t (map (ModuleSpecifier None) toks) = Inr (names, t'')"
    by blast
  from names_frame [OF n] have len: "length names = length toks"
    by simp
  from a have out: "transformList t xs = Inr (map2 lookupStatement names toks, t'')"
    by (simp add: transformList_reExports n)
  have "names ! a = names ! b"
    if "a < length toks" "b < length toks" "processedValue (toks ! a) = processedValue (toks ! b)"
    for a b
    using names_same [OF n, of a b] that by simp
  with n len out show "\<exists>names t''.
         getTempVarNames t (map (ModuleSpecifier None) toks) = Inr (names, t'') \<and>
         length names = length toks \<and>
         transformList t xs = Inr (map2 lookupStatement names toks, t'') \<and>
         (\<forall>a < length toks. \<forall>b < length toks.
            processedValue (toks ! a) = processedValue (toks ! b) \<longrightarrow> names ! a = names ! b)"
    by blast
qed

theorem reExports_share_temp_name_witness:
  "(\<exists>ns t'.
      getTempVarNames exampleTransformer
        [exampleSpecifier ''m'', exampleSpecifier ''n'', exampleSpecifier ''m''] = Inr (ns, t') \<and>
      (0::nat) < length [exampleSpecifier ''m'', exampleSpecifier ''n'', exampleSpecifier ''m''] \<and>
      (2::nat) < length [exampleSpecifier ''m'', exampleSpecifier ''n'', exampleSpecifier ''m''] \<and>
      ns ! 0 = ns ! 2) \<and>
   map reExportToken [exampleReExport ''a'' ''m'', exampleReExport ''b'' ''m''] =
     map Some [exampleToken ''m'', exampleToken ''m''] \<and>
   idMappingStack exampleTransformer \<noteq> [] \<and>
   (\<exists>names t''.
      getTempVarNames exampleTransformer
        (map (ModuleSpecifier None) [exampleToken ''m'', exampleToken ''m'']) = Inr (names, t'') \<and>
      transformList exampleTransformer [exampleReExport ''a'' ''m'', exampleReExport ''b'' ''m''] =
        Inr (map2 lookupStatement names [exampleToken ''m'', exampleToken ''m''], t'') \<and>
      names ! 0 = names ! 1)"
proof -
  let ?ms = "[exampleSpecifier ''m'', exampleSpecifier ''n'', exampleSpecifier ''m'']"
  have stack: "idMappingStack exampleTransformer \<noteq> []"
    by (simp add: example_defs)
  have "\<forall>m \<in> set ?ms. moduleNameOf m \<noteq> None"
    by (simp add: example_defs)
  from names_total [OF this stack] obtain ns t' where
    run: "getTempVarNames exampleTransformer ?ms = Inr (ns, t')"
    by blast
  have same: "moduleNameOf (?ms ! 0) = moduleNameOf (?ms ! 2)"
    by simp
  have len: "(0::nat) < length ?ms" "(2::nat) < length ?ms"
    by simp_all
  have toks: "map reExportToken [exampleReExport ''a'' ''m'', exampleReExport ''b'' ''m''] =
     map Some [exampleToken ''m'', exampleToken ''m'']"
    by (simp add: example_defs)
  note inst = reExports_share_temp_name [where t = exampleTransformer and ms = ?ms and ns = ns
      and t' = t' and i = 0 and j = 2
      and xs = "[exampleReExport ''a'' ''m'', exampleReExport ''b'' ''m'']"
      and toks = "[exampleToken ''m'', exampleToken ''m'']"]
  from inst    run same len
  have one: "ns ! 0 = ns ! 2"
    by blast
  from inst toks stack obtain names t'' where
    two: "getTempVarNames exampleTransformer
        (map (ModuleSpecifier None) [exampleToken ''m'', exampleToken ''m'']) = Inr (names, t'')"
      "transformList exampleTransformer [exampleReExport ''a'' ''m'', exampleReExport ''b'' ''m''] =
        Inr (map2 lookupStatement names [exampleToken ''m'', exampleToken ''m''], t'')"
    and share: "\<forall>a < length [exampleToken ''m'', exampleToken ''m''].
        \<forall>b < length [exampleToken ''m'', exampleToken ''m''].
          processedValue ([exampleToken ''m'', exampleToken ''m''] ! a) =
          processedValue ([exampleToken ''m'', exampleToken ''m''] ! b) \<longrightarrow> names ! a = names ! b"
    by blast
  from share have three: "names ! 0 = names ! 1"
    by simp
  from run len one toks stack two three show ?thesis
    by blast
qed

text \<open>
  Claim C8. In a scope that starts empty, calls of \<^verbatim>\<open>getTempVarNameForModuleSpecifier\<close>
  with module specifiers of different \<^verbatim>\<open>processedValue\<close> return different temporary
  names, however many calls lie between them; and in the scope that
  \<^verbatim>\<open>transformModule\<close> opens, two re-export statements from different specifier values
  lower to two different bindings \<^verbatim>\<open>var <name> = System.get(<token>)\<close>, each of its own
  token, given by the constructors of the trees.
\<close>

theorem distinct_specifiers_distinct_names:
  "(idMappingStack t0 \<noteq> [] \<and> last (idMappingStack t0) = Map.empty \<and>
      getTempVarNames t0 ms = Inr (ns, t') \<and> i < length ms \<and> j < length ms \<and>
      moduleNameOf (ms ! i) \<noteq> moduleNameOf (ms ! j) \<longrightarrow> ns ! i \<noteq> ns ! j) \<and>
   (processedValue ta \<noteq> processedValue tb \<longrightarrow>
      (\<exists>na nb t''.
         transformList (pushTempVarState t)
           [NamedExport lx (Some (ModuleSpecifier la ta)) sx,
            NamedExport ly (Some (ModuleSpecifier lb tb)) sy] =
           Inr ([wireLookupStatement na ta, wireLookupStatement nb tb], t'') \<and>
         na \<noteq> nb \<and> wireLookupStatement na ta \<noteq> wireLookupStatement nb tb))"
proof (intro conjI impI)
  assume "idMappingStack t0 \<noteq> [] \<and> last (idMappingStack t0) = Map.empty \<and>
      getTempVarNames t0 ms = Inr (ns, t') \<and> i < length ms \<and> j < length ms \<and>
      moduleNameOf (ms ! i) \<noteq> moduleNameOf (ms ! j)"
  then show "ns ! i \<noteq> ns ! j"
    using names_distinct [of t0 ms ns t' i j] scopeInv_fresh [of t0] by blast
next
  assume diff: "processedValue ta \<noteq> processedValue tb"
  let ?xs = "[NamedExport lx (Some (ModuleSpecifier la ta)) sx,
              NamedExport ly (Some (ModuleSpecifier lb tb)) sy]"
  let ?ms = "map (ModuleSpecifier None) [ta, tb]"
  have stack: "idMappingStack (pushTempVarState t) \<noteq> []"
    by (simp add: pushTempVarState_def)
  have "\<forall>m \<in> set ?ms. moduleNameOf m \<noteq> None"
    by simp
  from names_total [OF this stack] obtain names t'' where
    n: "getTempVarNames (pushTempVarState t) ?ms = Inr (names, t'')"
    by blast
  from names_frame [OF n] obtain na nb where names: "names = [na, nb]"
    by (cases names; cases "tl names") auto
  have "moduleNameOf (?ms ! 0) \<noteq> moduleNameOf (?ms ! 1)"
    using diff by simp
  from names_distinct [OF n scopeInv_push _ _ this] names have ne: "na \<noteq> nb"
    by simp
  have "map reExportToken ?xs = map Some [ta, tb]"
    by simp
  from transformList_reExports [OF this, of "pushTempVarState t"] n names
  have "transformList (pushTempVarState t) ?xs =
      Inr ([wireLookupStatement na ta, wireLookupStatement nb tb], t'')"
    by (simp add: lookupStatement_wire)
  with ne show "\<exists>na nb t''.
         transformList (pushTempVarState t) ?xs =
           Inr ([wireLookupStatement na ta, wireLookupStatement nb tb], t'') \<and>
         na \<noteq> nb \<and> wireLookupStatement na ta \<noteq> wireLookupStatement nb tb"
    by (auto simp: wireLookupStatement_def)
qed

theorem distinct_specifiers_distinct_names_witness:
  "idMappingStack exampleTransformer \<noteq> [] \<and>
   last (idMappingStack exampleTransformer) = Map.empty \<and>
   (\<exists>ns t'.
      getTempVarNames exampleTransformer
        [exampleSpecifier ''m'', exampleSpecifier ''n''] = Inr (ns, t') \<and>
      (0::nat) < length [exampleSpecifier ''m'', exampleSpecifier ''n''] \<and>
      (1::nat) < length [exampleSpecifier ''m'', exampleSpecifier ''n''] \<and>
      ns ! 0 \<noteq> ns ! 1) \<and>
   processedValue (exampleToken ''m'') \<noteq> processedValue (exampleToken ''n'') \<and>
   (\<exists>na nb t''.
      transformList (pushTempVarState exampleTransformer)
        [exampleReExport ''a'' ''m'', exampleReExport ''b'' ''n''] =
        Inr ([wireLookupStatement na (exampleToken ''m''), wireLookupStatement nb (exampleToken ''n'')], t'') \<and>
      na \<noteq> nb)"
proof -
  let ?ms = "[exampleSpecifier ''m'', exampleSpecifier ''n'']"
  have stack: "idMappingStack exampleTransformer \<noteq> []"
    and fresh: "last (idMappingStack exampleTransformer) = Map.empty"
    by (simp_all add: example_defs)
  have "\<forall>m \<in> set ?ms. moduleNameOf m \<noteq> None"
    by (simp add: example_defs)
  from names_total [OF this stack] obtain ns t' where
    run: "getTempVarNames exampleTransformer ?ms = Inr (ns, t')"
    by blast
  have diff: "moduleNameOf (?ms ! 0) \<noteq> moduleNameOf (?ms ! 1)"
    by (simp add: example_defs)
  have len: "(0::nat) < length ?ms" "(1::nat) < length ?ms"
    by simp_all
  have pv: "processedValue (exampleToken ''m'') \<noteq> processedValue (exampleToken ''n'')"
    by (simp add: example_defs)
  note inst = distinct_specifiers_distinct_names [where t = exampleTransformer
      and t0 = exampleTransformer and ms = ?ms
      and ns = ns and t' = t' and i = 0 and j = 1
      and ta = "exampleToken ''m''" and tb = "exampleToken ''n''"
      and lx = None and ly = None and la = None and lb = None
      and sx = "ExportSpecifierSet None [ExportSpecifier None (IdentifierToken None ''a'') None]"
      and sy = "ExportSpecifierSet None [ExportSpecifier None (IdentifierToken None ''b'') None]"]
  from inst stack fresh run diff len have one: "ns ! 0 \<noteq> ns ! 1"
    by blast
  from inst pv have two: "\<exists>na nb t''.
      transformList (pushTempVarState exampleTransformer)
        [exampleReExport ''a'' ''m'', exampleReExport ''b'' ''n''] =
        Inr ([wireLookupStatement na (exampleToken ''m''), wireLookupStatement nb (exampleToken ''n'')], t'') \<and>
      na \<noteq> nb"
    unfolding exampleReExport_def exampleSpecifier_def by blast
  from stack fresh run len one pv two show ?thesis
    by blast
qed

text \<open>Three re-export statements in a fresh scope, evaluated.\<close>

lemma distinct_specifiers_example:
  "map_sum id fst
     (transformList (pushTempVarState exampleTransformer)
        [exampleReExport ''a'' ''m'', exampleReExport ''b'' ''n'', exampleReExport ''c'' ''m'']) =
     Inr [wireLookupStatement ''$__0'' (exampleToken ''m''),
          wireLookupStatement ''$__1'' (exampleToken ''n''),
          wireLookupStatement ''$__0'' (exampleToken ''m'')]"
  by code_simp

end
